theory Spec2Isabelle
  imports Complex_Main
begin

section \<open>Few-shot meta-learning scripts (MAML and ITD-BiO on FC100)\<close>

text \<open>
  The two scripts \<^verbatim>\<open>maml.py\<close> and \<^verbatim>\<open>ITD-BiO.py\<close> orchestrate calls into numpy, torch and
  learn2learn. The model below embeds the orchestration as it is written; what the
  libraries compute (forward passes, losses, automatic differentiation, the Adam update)
  enters as parameters, so every theorem holds for whatever the libraries compute.
\<close>

subsection \<open>Errors\<close>

datatype error = IndexError | ZeroDivisionError | AttributeError | RuntimeError | OSError

subsection \<open>Separating an episode into adaptation and evaluation sets\<close>

text \<open>
  Lines 36 to 41 of \<^verbatim>\<open>maml.py\<close> and 55 to 60 of \<^verbatim>\<open>ITD-BiO.py\<close> are the same:
  \<^verbatim>\<open>
    adaptation_indices = np.zeros(data.size(0), dtype=bool)
    adaptation_indices[np.arange(shots*ways) * 2] = True
    evaluation_indices = torch.from_numpy(~adaptation_indices)
    adaptation_indices = torch.from_numpy(adaptation_indices)
    adaptation_data, adaptation_labels = data[adaptation_indices], labels[adaptation_indices]
    evaluation_data, evaluation_labels = data[evaluation_indices], labels[evaluation_indices]
  \<close>
  \<open>shots\<close> and \<open>ways\<close> are Python integers. A tensor is the list of its rows.
\<close>

definition arange :: "int \<Rightarrow> nat list" where
  \<comment> \<open>\<^verbatim>\<open>np.arange(n)\<close>: 0, ..., n-1; empty when n is not positive.\<close>
  "arange n = [0..<nat n]"

definition zeros :: "nat \<Rightarrow> bool list" where
  \<comment> \<open>\<^verbatim>\<open>np.zeros(n, dtype=bool)\<close>\<close>
  "zeros n = replicate n False"

definition assign_true :: "bool list \<Rightarrow> nat list \<Rightarrow> error + bool list" where
  \<comment> \<open>\<^verbatim>\<open>a[idx] = True\<close> for an index array of non-negative integers: numpy raises
      IndexError when an index is out of bounds, and writes otherwise.\<close>
  "assign_true a idx =
     (if list_all (\<lambda>i. i < length a) idx
      then Inr (fold (\<lambda>i m. m[i := True]) idx a)
      else Inl IndexError)"

definition invert :: "bool list \<Rightarrow> bool list" where
  \<comment> \<open>\<^verbatim>\<open>~a\<close> on a boolean array\<close>
  "invert a = map Not a"

definition mask_index :: "'a list \<Rightarrow> bool list \<Rightarrow> error + 'a list" where
  \<comment> \<open>\<^verbatim>\<open>t[mask]\<close> for a boolean mask over the first dimension: the rows at the True
      positions, in order; IndexError when the mask's length is not the tensor's.\<close>
  "mask_index t msk =
     (if length msk = length t
      then Inr (map fst (filter snd (zip t msk)))
      else Inl IndexError)"

definition adaptation_mask :: "int \<Rightarrow> int \<Rightarrow> nat \<Rightarrow> error + bool list" where
  "adaptation_mask shots ways n =
     assign_true (zeros n) (map (\<lambda>i. i * 2) (arange (shots * ways)))"

definition separate ::
  "int \<Rightarrow> int \<Rightarrow> 'a list \<Rightarrow> 'b list \<Rightarrow> error + (('a list \<times> 'b list) \<times> ('a list \<times> 'b list))" where
  "separate shots ways data labels =
     (case adaptation_mask shots ways (length data) of
        Inl e \<Rightarrow> Inl e
      | Inr adaptation_indices \<Rightarrow>
          (let evaluation_indices = invert adaptation_indices in
           case mask_index data adaptation_indices of
             Inl e \<Rightarrow> Inl e
           | Inr adaptation_data \<Rightarrow>
          (case mask_index labels adaptation_indices of
             Inl e \<Rightarrow> Inl e
           | Inr adaptation_labels \<Rightarrow>
          (case mask_index data evaluation_indices of
             Inl e \<Rightarrow> Inl e
           | Inr evaluation_data \<Rightarrow>
          (case mask_index labels evaluation_indices of
             Inl e \<Rightarrow> Inl e
           | Inr evaluation_labels \<Rightarrow>
               Inr ((adaptation_data, adaptation_labels),
                    (evaluation_data, evaluation_labels)))))))"

definition positions :: "bool list \<Rightarrow> nat list" where
  \<comment> \<open>the positions a boolean mask selects\<close>
  "positions msk = filter (\<lambda>i. msk ! i) [0..<length msk]"

subsection \<open>The library interface\<close>

text \<open>
  What torch and learn2learn compute is not in this repository. It enters the model as
  a record of functions, one per call the scripts make:
  \<^item> \<open>'l\<close> a learner (a cloned module with its fast weights), \<open>'x\<close> a row of a data
    tensor, \<open>'y\<close> a label, \<open>'p\<close> a tensor of predictions, \<open>'t\<close> a scalar tensor with
    its computation graph, \<open>'v\<close> a parameter tensor, \<open>'s\<close> the state of Adam;
  \<^item> scalar and parameter tensors carry exact (real) arithmetic: \<open>+\<close> and the product
    with a Python float are those of a real vector space.
\<close>

record ('l, 'x, 'y, 'p, 't, 'v, 's) lib =
  clone :: "'v list \<Rightarrow> 'l"
    \<comment> \<open>\<^verbatim>\<open>maml.clone()\<close>, \<^verbatim>\<open>head.clone()\<close>: a learner starting at the given parameter values\<close>
  forward :: "'l \<Rightarrow> 'x list \<Rightarrow> 'p"
    \<comment> \<open>\<^verbatim>\<open>learner(data)\<close>\<close>
  adapt :: "'l \<Rightarrow> 't \<Rightarrow> 'l"
    \<comment> \<open>\<^verbatim>\<open>learner.adapt(train_error)\<close>: the learner after the update\<close>
  parameters :: "'l \<Rightarrow> 'v list"
    \<comment> \<open>\<^verbatim>\<open>learner.parameters()\<close>\<close>
  norm2 :: "'v \<Rightarrow> 't"
    \<comment> \<open>\<^verbatim>\<open>p.norm(2)\<close>\<close>
  features_fwd :: "'v list \<Rightarrow> 'x list \<Rightarrow> 'x list"
    \<comment> \<open>\<^verbatim>\<open>features(data)\<close> at the given parameter values of the backbone\<close>
  cross_entropy :: "'p \<Rightarrow> 'y list \<Rightarrow> 't"
    \<comment> \<open>\<^verbatim>\<open>nn.CrossEntropyLoss(reduction='mean')\<close>\<close>
  argmax :: "'p \<Rightarrow> 'y list"
    \<comment> \<open>\<^verbatim>\<open>predictions.argmax(dim=1)\<close>\<close>
  idiv :: "'t \<Rightarrow> nat \<Rightarrow> 't"
    \<comment> \<open>\<^verbatim>\<open>t /= n\<close> on a scalar tensor\<close>
  item :: "'t \<Rightarrow> real"
    \<comment> \<open>\<^verbatim>\<open>t.item()\<close>\<close>
  d_features :: "'t \<Rightarrow> nat \<Rightarrow> 'v"
    \<comment> \<open>what \<^verbatim>\<open>t.backward()\<close> adds to the gradient of the j-th parameter of the backbone\<close>
  d_head :: "'t \<Rightarrow> nat \<Rightarrow> 'v"
    \<comment> \<open>what \<^verbatim>\<open>t.backward()\<close> adds to the gradient of the j-th parameter of the head\<close>
  adam :: "'s \<Rightarrow> nat \<Rightarrow> 'v \<Rightarrow> 'v \<Rightarrow> 'v"
    \<comment> \<open>Adam's new value of its j-th parameter, from the parameter's value and gradient\<close>
  adam_next :: "'s \<Rightarrow> 'v option list \<Rightarrow> 's"
    \<comment> \<open>Adam's state after a step on parameters with the given gradients\<close>

subsection \<open>accuracy\<close>

type_synonym pyfloat = "real option"
  \<comment> \<open>a float that may be NaN (\<open>None\<close>)\<close>

text \<open>
  \<^verbatim>\<open>
  def accuracy(predictions, targets):
      predictions = predictions.argmax(dim=1).view(targets.shape)
      return (predictions == targets).sum().float() / targets.size(0)
  \<close>
  \<open>view\<close> raises RuntimeError when the number of elements differs; with no target the
  quotient is 0/0, NaN.
\<close>

definition count_equal :: "'y list \<Rightarrow> 'y list \<Rightarrow> nat" where
  \<comment> \<open>\<^verbatim>\<open>(predictions == targets).sum()\<close>\<close>
  "count_equal preds targets = length (filter (\<lambda>(p, t). p = t) (zip preds targets))"

definition accuracy :: "('p \<Rightarrow> 'y list) \<Rightarrow> 'p \<Rightarrow> 'y list \<Rightarrow> error + pyfloat" where
  "accuracy amax predictions targets =
     (let preds = amax predictions in
      if length preds \<noteq> length targets then Inl RuntimeError
      else Inr (if length targets = 0 then None
                else Some (real (count_equal preds targets) / real (length targets))))"

subsection \<open>fast\_adapt of maml.py\<close>

text \<open>
  \<^verbatim>\<open>
    for step in range(adaptation_steps):
        train_error = loss(learner(adaptation_data), adaptation_labels)
        train_error /= len(adaptation_data)
        learner.adapt(train_error)
  \<close>
\<close>

fun adapt_the_model_maml ::
  "('l, 'x, 'y, 'p, 't, 'v, 's) lib \<Rightarrow> ('p \<Rightarrow> 'y list \<Rightarrow> 't) \<Rightarrow> 'x list \<Rightarrow> 'y list
   \<Rightarrow> nat \<Rightarrow> 'l \<Rightarrow> 'l" where
  "adapt_the_model_maml T loss adaptation_data adaptation_labels 0 learner = learner"
| "adapt_the_model_maml T loss adaptation_data adaptation_labels (Suc n) learner =
     (let train_error = loss (forward T learner adaptation_data) adaptation_labels;
          train_error = idiv T train_error (length adaptation_data)
      in adapt_the_model_maml T loss adaptation_data adaptation_labels n
           (adapt T learner train_error))"

text \<open>
  \<^verbatim>\<open>
    predictions = learner(evaluation_data)
    valid_error = loss(predictions, evaluation_labels)
    valid_error /= len(evaluation_data)
    valid_accuracy = accuracy(predictions, evaluation_labels)
    return valid_error, valid_accuracy
  \<close>
\<close>

definition evaluate_the_adapted_model_maml ::
  "('l, 'x, 'y, 'p, 't, 'v, 's) lib \<Rightarrow> ('p \<Rightarrow> 'y list \<Rightarrow> 't) \<Rightarrow> 'x list \<Rightarrow> 'y list
   \<Rightarrow> 'l \<Rightarrow> error + ('t \<times> pyfloat)" where
  "evaluate_the_adapted_model_maml T loss evaluation_data evaluation_labels learner =
     (let predictions = forward T learner evaluation_data;
          valid_error = loss predictions evaluation_labels;
          valid_error = idiv T valid_error (length evaluation_data)
      in case accuracy (argmax T) predictions evaluation_labels of
           Inl e \<Rightarrow> Inl e
         | Inr valid_accuracy \<Rightarrow> Inr (valid_error, valid_accuracy))"

text \<open>\<open>data.to(device)\<close> and \<open>labels.to(device)\<close> leave the values as they are.\<close>

definition fast_adapt_maml ::
  "('l, 'x, 'y, 'p, 't, 'v, 's) lib \<Rightarrow> 'x list \<times> 'y list \<Rightarrow> 'l \<Rightarrow> ('p \<Rightarrow> 'y list \<Rightarrow> 't)
   \<Rightarrow> int \<Rightarrow> int \<Rightarrow> int \<Rightarrow> error + ('t \<times> pyfloat)" where
  "fast_adapt_maml T batch learner loss adaptation_steps shots ways =
     (case batch of (data, labels) \<Rightarrow>
       (case separate shots ways data labels of
          Inl e \<Rightarrow> Inl e
        | Inr ((adaptation_data, adaptation_labels), (evaluation_data, evaluation_labels)) \<Rightarrow>
            evaluate_the_adapted_model_maml T loss evaluation_data evaluation_labels
              (adapt_the_model_maml T loss adaptation_data adaptation_labels
                 (nat adaptation_steps) learner)))"

subsection \<open>fast\_adapt of ITD-BiO.py\<close>

text \<open>
  \<^verbatim>\<open>
    for step in range(adaptation_steps):
        l2_reg = 0
        for p in learner.parameters():
            l2_reg += p.norm(2)
        train_error = loss(learner(adaptation_data), adaptation_labels) + reg_lambda*l2_reg
        learner.adapt(train_error)
  \<close>
\<close>

definition l2_reg_of ::
  "('l, 'x, 'y, 'p, 't :: real_vector, 'v, 's) lib \<Rightarrow> 'l \<Rightarrow> 't" where
  "l2_reg_of T learner = foldl (\<lambda>l2_reg p. l2_reg + norm2 T p) 0 (parameters T learner)"

fun adapt_the_model_itd ::
  "('l, 'x, 'y, 'p, 't :: real_vector, 'v, 's) lib \<Rightarrow> ('p \<Rightarrow> 'y list \<Rightarrow> 't) \<Rightarrow> real
   \<Rightarrow> 'x list \<Rightarrow> 'y list \<Rightarrow> nat \<Rightarrow> 'l \<Rightarrow> 'l" where
  "adapt_the_model_itd T loss reg_lambda adaptation_data adaptation_labels 0 learner = learner"
| "adapt_the_model_itd T loss reg_lambda adaptation_data adaptation_labels (Suc n) learner =
     (let l2_reg = l2_reg_of T learner;
          train_error = loss (forward T learner adaptation_data) adaptation_labels
                        + reg_lambda *\<^sub>R l2_reg
      in adapt_the_model_itd T loss reg_lambda adaptation_data adaptation_labels n
           (adapt T learner train_error))"

text \<open>
  \<^verbatim>\<open>
    predictions = learner(evaluation_data)
    valid_error = loss(predictions, evaluation_labels)
    valid_accuracy = accuracy(predictions, evaluation_labels)
    return valid_error, valid_accuracy
  \<close>
\<close>

definition evaluate_the_adapted_model_itd ::
  "('l, 'x, 'y, 'p, 't, 'v, 's) lib \<Rightarrow> ('p \<Rightarrow> 'y list \<Rightarrow> 't) \<Rightarrow> 'x list \<Rightarrow> 'y list
   \<Rightarrow> 'l \<Rightarrow> error + ('t \<times> pyfloat)" where
  "evaluate_the_adapted_model_itd T loss evaluation_data evaluation_labels learner =
     (let predictions = forward T learner evaluation_data;
          valid_error = loss predictions evaluation_labels
      in case accuracy (argmax T) predictions evaluation_labels of
           Inl e \<Rightarrow> Inl e
         | Inr valid_accuracy \<Rightarrow> Inr (valid_error, valid_accuracy))"

text \<open>Here \<open>data = features(data)\<close> comes before the separation.\<close>

definition fast_adapt_itd ::
  "('l, 'x, 'y, 'p, 't :: real_vector, 'v, 's) lib \<Rightarrow> 'x list \<times> 'y list \<Rightarrow> 'l
   \<Rightarrow> ('x list \<Rightarrow> 'x list) \<Rightarrow> ('p \<Rightarrow> 'y list \<Rightarrow> 't) \<Rightarrow> real
   \<Rightarrow> int \<Rightarrow> int \<Rightarrow> int \<Rightarrow> error + ('t \<times> pyfloat)" where
  "fast_adapt_itd T batch learner features loss reg_lambda adaptation_steps shots ways =
     (case batch of (data, labels) \<Rightarrow>
       (let data = features data in
         (case separate shots ways data labels of
            Inl e \<Rightarrow> Inl e
          | Inr ((adaptation_data, adaptation_labels), (evaluation_data, evaluation_labels)) \<Rightarrow>
              evaluate_the_adapted_model_itd T loss evaluation_data evaluation_labels
                (adapt_the_model_itd T loss reg_lambda adaptation_data adaptation_labels
                   (nat adaptation_steps) learner))))"

subsection \<open>The state of main\<close>

text \<open>
  A parameter tensor of the meta-model with its \<open>.grad\<close> (\<open>None\<close> until a backward pass
  or after \<open>zero_grad\<close>). The meta-model is the convolutional backbone \<open>features\<close> and the
  linear head: in \<^verbatim>\<open>maml.py\<close> both are in one \<open>Sequential\<close> wrapped by \<open>MAML\<close>, in
  \<^verbatim>\<open>ITD-BiO.py\<close> only the head is wrapped.
\<close>

record 'v cell =
  p_data :: 'v
  p_grad :: "'v option"

record ('v, 's) state =
  features_params :: "'v cell list"
  head_params :: "'v cell list"
  opt_state :: 's
  training_accuracy :: "pyfloat list"
  test_accuracy :: "pyfloat list"
  running_time :: "real list"
  printed :: "(string \<times> pyfloat) list"

text \<open>The accumulators of one outer iteration.\<close>

record stats =
  meta_train_error :: real
  meta_train_accuracy :: pyfloat
  meta_valid_error :: real
  meta_valid_accuracy :: pyfloat
  meta_test_error :: real
  meta_test_accuracy :: pyfloat

text \<open>
  The arguments of \<open>main\<close>. \<^verbatim>\<open>ITD-BiO.py\<close> calls them \<open>adapt_steps\<close>, \<open>meta_bsz\<close> and
  \<open>iters\<close>; \<open>reg_lambda\<close> exists there only. The learning rates are used by the
  constructors of \<open>MAML\<close> and \<open>Adam\<close>, that is inside \<open>adapt\<close> and \<open>adam\<close>.
\<close>

record args =
  arg_ways :: int
  arg_shots :: int
  arg_meta_lr :: real
  arg_fast_lr :: real
  arg_reg_lambda :: real
  arg_adaptation_steps :: int
  arg_meta_batch_size :: int
  arg_num_iterations :: int
  arg_seed :: int

text \<open>
  What the seeded libraries and the clock deliver to one run of \<open>main\<close>: the initial
  weights, the batch that the call of \<open>sample()\<close> for a task of an iteration returns,
  and the readings of \<open>time.time()\<close>.
\<close>

record ('x, 'y, 'v, 's) env =
  init_features :: "'v list"
  init_head :: "'v list"
  init_opt :: 's
  train_tasks :: "nat \<Rightarrow> nat \<Rightarrow> 'x list \<times> 'y list"
  valid_tasks :: "nat \<Rightarrow> nat \<Rightarrow> 'x list \<times> 'y list"
  test_tasks :: "nat \<Rightarrow> nat \<Rightarrow> 'x list \<times> 'y list"
  start_time :: real
  end_time :: "nat \<Rightarrow> real"

datatype script = MAML | ITD_BiO

subsection \<open>Python floats\<close>

definition fadd :: "pyfloat \<Rightarrow> pyfloat \<Rightarrow> pyfloat" where
  \<comment> \<open>\<open>a + b\<close>: NaN when either is\<close>
  "fadd a b = (case a of None \<Rightarrow> None | Some x \<Rightarrow> (case b of None \<Rightarrow> None | Some y \<Rightarrow> Some (x + y)))"

definition fdiv :: "pyfloat \<Rightarrow> int \<Rightarrow> pyfloat" where
  \<comment> \<open>\<open>a / n\<close> for an integer n that is not 0\<close>
  "fdiv a n = (case a of None \<Rightarrow> None | Some x \<Rightarrow> Some (x / real_of_int n))"

subsection \<open>Gradients and the optimizer\<close>

definition map_index :: "(nat \<Rightarrow> 'a \<Rightarrow> 'b) \<Rightarrow> 'a list \<Rightarrow> 'b list" where
  \<comment> \<open>\<open>for j, p in enumerate(ps)\<close>\<close>
  "map_index f ps = map (\<lambda>j. f j (ps ! j)) [0..<length ps]"

definition values_of :: "'v cell list \<Rightarrow> 'v list" where
  "values_of ps = map p_data ps"

definition optimized :: "script \<Rightarrow> ('v, 's) state \<Rightarrow> 'v cell list" where
  \<comment> \<open>\<^verbatim>\<open>maml.parameters()\<close> of \<^verbatim>\<open>optim.Adam(maml.parameters(), meta_lr)\<close> in maml.py;
      \<^verbatim>\<open>all_parameters = list(features.parameters())\<close> in ITD-BiO.py\<close>
  "optimized sc s =
     (case sc of
        MAML \<Rightarrow> features_params s @ head_params s
      | ITD_BiO \<Rightarrow> features_params s)"

definition set_optimized :: "script \<Rightarrow> 'v cell list \<Rightarrow> ('v, 's) state \<Rightarrow> ('v, 's) state" where
  \<comment> \<open>the state once the tensors of \<open>optimized\<close> have been changed in place\<close>
  "set_optimized sc ps s =
     (case sc of
        MAML \<Rightarrow> s\<lparr>features_params := take (length (features_params s)) ps,
                  head_params := drop (length (features_params s)) ps\<rparr>
      | ITD_BiO \<Rightarrow> s\<lparr>features_params := ps\<rparr>)"

definition zero_grad :: "script \<Rightarrow> ('v, 's) state \<Rightarrow> ('v, 's) state" where
  \<comment> \<open>\<^verbatim>\<open>opt.zero_grad()\<close>: the gradients of the optimizer's parameters are reset (to
      \<open>None\<close>, as torch does from version 2.0 on; earlier versions write zeros into an
      existing gradient, and the sums below are the same)\<close>
  "zero_grad sc s = set_optimized sc (map (\<lambda>p. p\<lparr>p_grad := None\<rparr>) (optimized sc s)) s"

definition accumulate :: "'v :: real_vector cell \<Rightarrow> 'v \<Rightarrow> 'v cell" where
  "accumulate p g = p\<lparr>p_grad := Some (case p_grad p of None \<Rightarrow> g | Some a \<Rightarrow> a + g)\<rparr>"

definition backward ::
  "('l, 'x, 'y, 'p, 't, 'v :: real_vector, 's) lib \<Rightarrow> 't \<Rightarrow> ('v, 's) state \<Rightarrow> ('v, 's) state" where
  \<comment> \<open>\<^verbatim>\<open>evaluation_error.backward()\<close>: every parameter of the backbone and of the head
      is a leaf of the graph of the error\<close>
  "backward L t s =
     s\<lparr>features_params := map_index (\<lambda>j p. accumulate p (d_features L t j)) (features_params s),
       head_params := map_index (\<lambda>j p. accumulate p (d_head L t j)) (head_params s)\<rparr>"

definition average_gradients ::
  "script \<Rightarrow> int \<Rightarrow> ('v :: real_vector, 's) state \<Rightarrow> error + ('v, 's) state" where
  \<comment> \<open>\<^verbatim>\<open>for p in maml.parameters(): p.grad.data.mul_(1.0 / meta_batch_size)\<close>;
      \<open>p.grad.data\<close> raises AttributeError when \<open>p.grad\<close> is \<open>None\<close>\<close>
  "average_gradients sc meta_batch_size s =
     (if optimized sc s = [] then Inr s
      else if \<not> list_all (\<lambda>p. p_grad p \<noteq> None) (optimized sc s) then Inl AttributeError
      else if meta_batch_size = 0 then Inl ZeroDivisionError
      else Inr (set_optimized sc
             (map (\<lambda>p. p\<lparr>p_grad := map_option (\<lambda>g. (1 / real_of_int meta_batch_size) *\<^sub>R g)
                                      (p_grad p)\<rparr>)
                (optimized sc s)) s))"

definition optimizer_step ::
  "script \<Rightarrow> ('l, 'x, 'y, 'p, 't, 'v, 's) lib \<Rightarrow> ('v, 's) state \<Rightarrow> ('v, 's) state" where
  \<comment> \<open>\<^verbatim>\<open>opt.step()\<close>: Adam skips a parameter whose gradient is \<open>None\<close>\<close>
  "optimizer_step sc L s =
     (set_optimized sc
        (map_index (\<lambda>j p. case p_grad p of
                             None \<Rightarrow> p
                           | Some g \<Rightarrow> p\<lparr>p_data := adam L (opt_state s) j (p_data p) g\<rparr>)
           (optimized sc s)) s)
     \<lparr>opt_state := adam_next L (opt_state s) (map p_grad (optimized sc s))\<rparr>"

subsection \<open>One task of the meta batch\<close>

definition adapt_task ::
  "script \<Rightarrow> ('l, 'x, 'y, 'p, 't :: real_vector, 'v, 's) lib \<Rightarrow> args \<Rightarrow> ('v, 's) state
   \<Rightarrow> 'x list \<times> 'y list \<Rightarrow> error + ('t \<times> pyfloat)" where
  \<comment> \<open>\<^verbatim>\<open>learner = maml.clone()\<close> (\<^verbatim>\<open>head.clone()\<close>) and the call of \<open>fast_adapt\<close>\<close>
  "adapt_task sc L A s batch =
     (case sc of
        MAML \<Rightarrow>
          (let learner = clone L (values_of (features_params s) @ values_of (head_params s))
           in fast_adapt_maml L batch learner (cross_entropy L)
                (arg_adaptation_steps A) (arg_shots A) (arg_ways A))
      | ITD_BiO \<Rightarrow>
          (let learner = clone L (values_of (head_params s))
           in fast_adapt_itd L batch learner (features_fwd L (values_of (features_params s)))
                (cross_entropy L) (arg_reg_lambda A)
                (arg_adaptation_steps A) (arg_shots A) (arg_ways A)))"

definition task_result ::
  "script \<Rightarrow> ('l, 'x, 'y, 'p, 't :: real_vector, 'v, 's) lib \<Rightarrow> args \<Rightarrow> ('v, 's) state
   \<Rightarrow> 'x list \<times> 'y list \<Rightarrow> 't \<times> pyfloat" where
  \<comment> \<open>the evaluation error and accuracy that \<open>fast_adapt\<close> returns for a batch, when it
      returns; used to state what the loops accumulate\<close>
  "task_result sc L A s batch = projr (adapt_task sc L A s batch)"

definition one_task ::
  "script \<Rightarrow> ('l, 'x, 'y, 'p, 't :: real_vector, 'v :: real_vector, 's) lib
   \<Rightarrow> ('x, 'y, 'v, 's) env \<Rightarrow> args \<Rightarrow> nat \<Rightarrow> nat
   \<Rightarrow> ('v, 's) state \<times> stats \<Rightarrow> error + (('v, 's) state \<times> stats)" where
  "one_task sc L E A iteration task sa =
     (case sa of (s, a) \<Rightarrow>
       \<comment> \<open>Compute meta-training loss\<close>
       (case adapt_task sc L A s (train_tasks E iteration task) of
          Inl e \<Rightarrow> Inl e
        | Inr (evaluation_error, evaluation_accuracy) \<Rightarrow>
       (let s = backward L evaluation_error s;
            a = a\<lparr>meta_train_error := meta_train_error a + item L evaluation_error,
                  meta_train_accuracy := fadd (meta_train_accuracy a) evaluation_accuracy\<rparr>
        in
       \<comment> \<open>Compute meta-validation loss\<close>
       (case adapt_task sc L A s (valid_tasks E iteration task) of
          Inl e \<Rightarrow> Inl e
        | Inr (evaluation_error, evaluation_accuracy) \<Rightarrow>
       (let a = a\<lparr>meta_valid_error := meta_valid_error a + item L evaluation_error,
                  meta_valid_accuracy := fadd (meta_valid_accuracy a) evaluation_accuracy\<rparr>
        in
       \<comment> \<open>Compute meta-test loss\<close>
       (case adapt_task sc L A s (test_tasks E iteration task) of
          Inl e \<Rightarrow> Inl e
        | Inr (evaluation_error, evaluation_accuracy) \<Rightarrow>
       (let a = a\<lparr>meta_test_error := meta_test_error a + item L evaluation_error,
                  meta_test_accuracy := fadd (meta_test_accuracy a) evaluation_accuracy\<rparr>
        in Inr (s, a))))))))"

fun task_loop ::
  "script \<Rightarrow> ('l, 'x, 'y, 'p, 't :: real_vector, 'v :: real_vector, 's) lib
   \<Rightarrow> ('x, 'y, 'v, 's) env \<Rightarrow> args \<Rightarrow> nat \<Rightarrow> nat list
   \<Rightarrow> ('v, 's) state \<times> stats \<Rightarrow> error + (('v, 's) state \<times> stats)" where
  \<comment> \<open>\<^verbatim>\<open>for task in range(meta_batch_size)\<close>\<close>
  "task_loop sc L E A iteration [] sa = Inr sa"
| "task_loop sc L E A iteration (task # tasks) sa =
     (case one_task sc L E A iteration task sa of
        Inl e \<Rightarrow> Inl e
      | Inr sa' \<Rightarrow> task_loop sc L E A iteration tasks sa')"

subsection \<open>One outer iteration, and main\<close>

definition stats0 :: stats where
  \<comment> \<open>the six accumulators set to \<open>0.0\<close> at the start of an iteration\<close>
  "stats0 = \<lparr>meta_train_error = 0, meta_train_accuracy = Some 0,
             meta_valid_error = 0, meta_valid_accuracy = Some 0,
             meta_test_error = 0, meta_test_accuracy = Some 0\<rparr>"

definition grad_or_zero :: "'v :: real_vector option \<Rightarrow> 'v" where
  \<comment> \<open>a gradient read as a summand: nothing accumulated yet counts as 0\<close>
  "grad_or_zero g = (case g of None \<Rightarrow> 0 | Some a \<Rightarrow> a)"

definition accumulated ::
  "script \<Rightarrow> ('l, 'x, 'y, 'p, 't :: real_vector, 'v :: real_vector, 's) lib
   \<Rightarrow> ('x, 'y, 'v, 's) env \<Rightarrow> args \<Rightarrow> nat \<Rightarrow> ('v, 's) state \<Rightarrow> ('v, 's) state" where
  \<comment> \<open>the state after \<open>zero_grad\<close> and the backward passes of the evaluation errors of the
      meta-training tasks of an iteration, and of nothing else; used to state what an
      iteration computes\<close>
  "accumulated sc L E A iteration s =
     fold (\<lambda>task. backward L (fst (task_result sc L A s (train_tasks E iteration task))))
       [0..<nat (arg_meta_batch_size A)] (zero_grad sc s)"

definition running_time_label :: "script \<Rightarrow> string" where
  "running_time_label sc =
     (case sc of MAML \<Rightarrow> ''total running time'' | ITD_BiO \<Rightarrow> ''time per iteration'')"

definition one_iteration ::
  "script \<Rightarrow> ('l, 'x, 'y, 'p, 't :: real_vector, 'v :: real_vector, 's) lib
   \<Rightarrow> ('x, 'y, 'v, 's) env \<Rightarrow> args \<Rightarrow> nat \<Rightarrow> ('v, 's) state \<Rightarrow> error + ('v, 's) state" where
  \<comment> \<open>The first division by \<open>meta_batch_size\<close> raises ZeroDivisionError when it is 0;
      the later ones then have a divisor that is not 0.\<close>
  "one_iteration sc L E A iteration s =
     (let meta_batch_size = arg_meta_batch_size A;
          s = zero_grad sc s;
          a = stats0
      in
      (case task_loop sc L E A iteration [0..<nat meta_batch_size] (s, a) of
         Inl e \<Rightarrow> Inl e
       | Inr (s, a) \<Rightarrow>
      (if meta_batch_size = 0 then Inl ZeroDivisionError
       else
      (let s = s\<lparr>training_accuracy :=
                   (training_accuracy s)[iteration := fdiv (meta_train_accuracy a) meta_batch_size]\<rparr>;
           s = s\<lparr>test_accuracy :=
                   (test_accuracy s)[iteration := fdiv (meta_test_accuracy a) meta_batch_size]\<rparr>;
           \<comment> \<open>Print some metrics\<close>
           s = s\<lparr>printed := printed s @
                   [(''Iteration'', Some (real iteration)),
                    (''Meta Train Error'', Some (meta_train_error a / real_of_int meta_batch_size)),
                    (''Meta Train Accuracy'', fdiv (meta_train_accuracy a) meta_batch_size),
                    (''Meta Valid Error'', Some (meta_valid_error a / real_of_int meta_batch_size)),
                    (''Meta Valid Accuracy'', fdiv (meta_valid_accuracy a) meta_batch_size),
                    (''Meta Test Error'', Some (meta_test_error a / real_of_int meta_batch_size)),
                    (''Meta Test Accuracy'', fdiv (meta_test_accuracy a) meta_batch_size)]\<rparr>
       in
       \<comment> \<open>Average the accumulated gradients and optimize\<close>
      (case average_gradients sc meta_batch_size s of
         Inl e \<Rightarrow> Inl e
       | Inr s \<Rightarrow>
      (let s = optimizer_step sc L s;
           s = s\<lparr>running_time :=
                   (running_time s)[iteration := end_time E iteration - start_time E]\<rparr>;
           s = s\<lparr>printed := printed s @
                   [(running_time_label sc, Some (end_time E iteration - start_time E))]\<rparr>
       in Inr s))))))"

fun iterations ::
  "script \<Rightarrow> ('l, 'x, 'y, 'p, 't :: real_vector, 'v :: real_vector, 's) lib
   \<Rightarrow> ('x, 'y, 'v, 's) env \<Rightarrow> args \<Rightarrow> nat list \<Rightarrow> ('v, 's) state \<Rightarrow> error + ('v, 's) state" where
  \<comment> \<open>\<^verbatim>\<open>for iteration in range(num_iterations)\<close>\<close>
  "iterations sc L E A [] s = Inr s"
| "iterations sc L E A (iteration # rest) s =
     (case one_iteration sc L E A iteration s of
        Inl e \<Rightarrow> Inl e
      | Inr s' \<Rightarrow> iterations sc L E A rest s')"

definition initial_state :: "('x, 'y, 'v, 's) env \<Rightarrow> args \<Rightarrow> ('v, 's) state" where
  \<comment> \<open>the model and optimizer as created, and \<^verbatim>\<open>torch.ones(num_iterations)\<close> for the curves
      (\<open>main\<close> below raises before this for a negative \<open>num_iterations\<close>)\<close>
  "initial_state E A =
     \<lparr>features_params = map (\<lambda>v. \<lparr>p_data = v, p_grad = None\<rparr>) (init_features E),
      head_params = map (\<lambda>v. \<lparr>p_data = v, p_grad = None\<rparr>) (init_head E),
      opt_state = init_opt E,
      training_accuracy = replicate (nat (arg_num_iterations A)) (Some 1),
      test_accuracy = replicate (nat (arg_num_iterations A)) (Some 1),
      running_time = replicate (nat (arg_num_iterations A)) 1,
      printed = []\<rparr>"

definition main ::
  "script \<Rightarrow> ('l, 'x, 'y, 'p, 't :: real_vector, 'v :: real_vector, 's) lib
   \<Rightarrow> ('x, 'y, 'v, 's) env \<Rightarrow> args \<Rightarrow> error + (pyfloat list \<times> pyfloat list \<times> real list)" where
  \<comment> \<open>\<^verbatim>\<open>torch.ones(num_iterations)\<close> raises RuntimeError for a negative size\<close>
  "main sc L E A =
     (if arg_num_iterations A < 0 then Inl RuntimeError
      else
        (case iterations sc L E A [0..<nat (arg_num_iterations A)] (initial_state E A) of
           Inl e \<Rightarrow> Inl e
         | Inr s \<Rightarrow> Inr (training_accuracy s, test_accuracy s, running_time s)))"

subsection \<open>The scripts\<close>










fun run_seeds ::
  "(int \<Rightarrow> error + (pyfloat list \<times> pyfloat list \<times> real list)) \<Rightarrow> int list
   \<Rightarrow> pyfloat list list \<times> pyfloat list list \<times> real list list
   \<Rightarrow> error + (pyfloat list list \<times> pyfloat list list \<times> real list list)" where
  \<comment> \<open>\<^verbatim>\<open>for seed in seeds\<close>: run, then append to the three lists\<close>
  "run_seeds run [] acc = Inr acc"
| "run_seeds run (seed # seeds) acc =
     (case run seed of
        Inl e \<Rightarrow> Inl e
      | Inr (training_acc, testing_acc, running) \<Rightarrow>
          (case acc of (train_acc, test_acc, run_time) \<Rightarrow>
             run_seeds run seeds
               (train_acc @ [training_acc], test_acc @ [testing_acc], run_time @ [running])))"




subsection \<open>A small instance of the library interface\<close>

text \<open>
  To run the model on concrete inputs: a learner is a counter of its updates and one
  weight, a row of data is a number, a prediction is a class.
\<close>

definition toy_lib :: "(nat \<times> real, real, nat, nat list, real, real, nat) lib" where
  "toy_lib =
     \<lparr>clone = (\<lambda>vs. (0, sum_list vs)),
      forward = (\<lambda>l xs. map (\<lambda>x. if snd l \<le> x then 1 else 0) xs),
      adapt = (\<lambda>l t. (Suc (fst l), snd l - t)),
      parameters = (\<lambda>l. [snd l]),
      norm2 = (\<lambda>v. \<bar>v\<bar>),
      features_fwd = (\<lambda>vs xs. map (\<lambda>x. x + sum_list vs) xs),
      cross_entropy = (\<lambda>p ys. real (length (filter (\<lambda>(a, b). a \<noteq> b) (zip p ys)))),
      argmax = (\<lambda>p. p),
      idiv = (\<lambda>t n. t / real n),
      item = (\<lambda>t. t),
      d_features = (\<lambda>t j. t + 1 + real j),
      d_head = (\<lambda>t j. t + 2),
      adam = (\<lambda>s j v g. v - g),
      adam_next = (\<lambda>s gs. Suc s)\<rparr>"

definition toy_env :: "(real, nat, real, nat) env" where
  "toy_env =
     \<lparr>init_features = [1], init_head = [2], init_opt = 0,
      train_tasks = (\<lambda>i t. ([real t * 4, 5 / 2], [1, 1])),
      valid_tasks = (\<lambda>i t. ([0, 1], [1, 0])),
      test_tasks = (\<lambda>i t. ([5, 5], [1, 1])),
      start_time = 10,
      end_time = (\<lambda>i. 11 + real i)\<rparr>"

definition toy_env2 :: "(real, nat, real, nat) env" where
  \<comment> \<open>\<open>toy_env\<close> with other meta-validation and meta-test batches\<close>
  "toy_env2 =
     toy_env\<lparr>valid_tasks := (\<lambda>i t. ([1, 1], [0, 0])),
             test_tasks := (\<lambda>i t. ([0, 0], [1, 1]))\<rparr>"

definition toy_args :: args where
  "toy_args =
     \<lparr>arg_ways = 1, arg_shots = 1, arg_meta_lr = 1 / 1000, arg_fast_lr = 1 / 2,
      arg_reg_lambda = 1 / 2, arg_adaptation_steps = 1, arg_meta_batch_size = 2,
      arg_num_iterations = 2, arg_seed = 42\<rparr>"




subsection \<open>Facts about masks\<close>

lemma length_fold_update:
  "length (fold (\<lambda>i m. m[i := True]) idx a) = length a"
  by (induction idx arbitrary: a) auto

lemma nth_fold_update:
  "j < length a \<Longrightarrow> fold (\<lambda>i m. m[i := True]) idx a ! j = (a ! j \<or> j \<in> set idx)"
proof (induction idx arbitrary: a)
  case Nil
  then show ?case by simp
next
  case (Cons i idx)
  have "fold (\<lambda>i m. m[i := True]) (i # idx) a ! j
        = fold (\<lambda>i m. m[i := True]) idx (a[i := True]) ! j"
    by simp
  also have "\<dots> = (a[i := True] ! j \<or> j \<in> set idx)"
    using Cons by simp
  also have "\<dots> = (a ! j \<or> j \<in> set (i # idx))"
  proof (cases "i < length a")
    case True
    then show ?thesis using Cons.prems by (auto simp: nth_list_update)
  next
    case False
    then show ?thesis using Cons.prems by auto
  qed
  finally show ?case .
qed

lemma mask_select_nth:
  "length msk = length t \<Longrightarrow>
   map fst (filter snd (zip t msk)) = map (\<lambda>i. t ! i) (positions msk)"
proof (induction t arbitrary: msk rule: rev_induct)
  case Nil
  then show ?case by (simp add: positions_def)
next
  case (snoc x t)
  then obtain b m where msk: "msk = m @ [b]" and len: "length m = length t"
    by (cases msk rule: rev_cases) auto
  have pos: "positions (m @ [b]) = positions m @ (if b then [length m] else [])"
    by (auto simp: positions_def nth_append intro: filter_cong)
  have old: "map (\<lambda>i. (t @ [x]) ! i) (positions m) = map (\<lambda>i. t ! i) (positions m)"
    using len by (auto simp: positions_def nth_append)
  show ?case
    using snoc.IH [OF len] len by (simp add: msk pos old)
qed

lemma evens_below: "filter even [0..<2 * n] = map (\<lambda>i. 2 * i) [0..<n]"
  by (induction n) auto

lemma odds_below: "filter odd [0..<2 * n] = map (\<lambda>i. 2 * i + 1) [0..<n]"
  by (induction n) auto

lemma adaptation_mask_ok:
  assumes "2 * (shots * ways) - 1 \<le> int n"
  shows "adaptation_mask shots ways n
         = Inr (map (\<lambda>j. even j \<and> j < 2 * nat (shots * ways)) [0..<n])"
proof -
  let ?idx = "map (\<lambda>i. i * 2) (arange (shots * ways))"
  have inb: "list_all (\<lambda>i. i < length (zeros n)) ?idx"
    using assms by (auto simp: list_all_iff arange_def zeros_def)
  have "fold (\<lambda>i m. m[i := True]) ?idx (zeros n)
        = map (\<lambda>j. even j \<and> j < 2 * nat (shots * ways)) [0..<n]"
  proof (rule nth_equalityI)
    show "length (fold (\<lambda>i m. m[i := True]) ?idx (zeros n))
          = length (map (\<lambda>j. even j \<and> j < 2 * nat (shots * ways)) [0..<n])"
      by (simp add: length_fold_update zeros_def)
  next
    fix j assume "j < length (fold (\<lambda>i m. m[i := True]) ?idx (zeros n))"
    then have j: "j < n" by (simp add: length_fold_update zeros_def)
    have "(j \<in> set ?idx) = (even j \<and> j < 2 * nat (shots * ways))"
      by (auto simp: arange_def elim!: evenE)
    then show "fold (\<lambda>i m. m[i := True]) ?idx (zeros n) ! j
          = map (\<lambda>j. even j \<and> j < 2 * nat (shots * ways)) [0..<n] ! j"
      using j by (simp add: nth_fold_update zeros_def)
  qed
  then show ?thesis
    using inb by (simp add: adaptation_mask_def assign_true_def)
qed

lemma adaptation_mask_error:
  assumes "int n < 2 * (shots * ways) - 1"
  shows "adaptation_mask shots ways n = Inl IndexError"
proof -
  have pos: "0 < shots * ways" using assms by linarith
  then have "nat (shots * ways) - 1 \<in> set (arange (shots * ways))"
    by (simp add: arange_def)
  moreover have "\<not> (nat (shots * ways) - 1) * 2 < n"
    using assms pos by linarith
  ultimately have "\<not> list_all (\<lambda>i. i < length (zeros n))
                       (map (\<lambda>i. i * 2) (arange (shots * ways)))"
    by (auto simp: list_all_iff zeros_def)
  then show ?thesis
    by (simp add: adaptation_mask_def assign_true_def)
qed

lemma positions_map: "positions (map P [0..<n]) = filter P [0..<n]"
  by (auto simp: positions_def intro: filter_cong)

lemma positions_invert_map: "positions (invert (map P [0..<n])) = filter (\<lambda>i. \<not> P i) [0..<n]"
  by (auto simp: positions_def invert_def intro: filter_cong)

lemma separate_ok:
  assumes "adaptation_mask shots ways (length data) = Inr m"
    and "length m = length data" and "length labels = length data"
  shows "separate shots ways data labels =
     Inr ((map (\<lambda>i. data ! i) (positions m), map (\<lambda>i. labels ! i) (positions m)),
          (map (\<lambda>i. data ! i) (positions (invert m)),
           map (\<lambda>i. labels ! i) (positions (invert m))))"
  using assms
  by (simp add: separate_def mask_index_def mask_select_nth invert_def Let_def)

subsection \<open>Facts about the inner loop\<close>

lemma foldl_plus_sum_list:
  fixes f :: "'a \<Rightarrow> 't :: real_vector"
  shows "foldl (\<lambda>acc p. acc + f p) z ps = z + sum_list (map f ps)"
  by (induction ps arbitrary: z) (auto simp: add.assoc)

lemma l2_reg_of_sum: "l2_reg_of T learner = (\<Sum>p\<leftarrow>parameters T learner. norm2 T p)"
  by (simp add: l2_reg_of_def foldl_plus_sum_list)

lemma adapt_the_model_maml_funpow:
  "adapt_the_model_maml T loss ad al n learner =
     ((\<lambda>l. adapt T l (idiv T (loss (forward T l ad) al) (length ad))) ^^ n) learner"
proof (induction n arbitrary: learner)
  case 0
  show ?case by simp
next
  case (Suc n)
  show ?case
    by (simp add: Suc Let_def funpow_Suc_right del: funpow.simps)
qed

lemma adapt_the_model_itd_funpow:
  "adapt_the_model_itd T loss reg ad al n learner =
     ((\<lambda>l. adapt T l (loss (forward T l ad) al
                        + reg *\<^sub>R (\<Sum>p\<leftarrow>parameters T l. norm2 T p))) ^^ n) learner"
proof (induction n arbitrary: learner)
  case 0
  show ?case by simp
next
  case (Suc n)
  show ?case
    by (simp add: Suc Let_def l2_reg_of_sum funpow_Suc_right del: funpow.simps)
qed

subsection \<open>Facts about the scripts\<close>


lemma run_seeds_error:
  "run_seeds run seeds acc = Inl e \<Longrightarrow> \<exists>seed \<in> set seeds. run seed = Inl e"
proof (induction seeds arbitrary: acc)
  case Nil
  then show ?case by simp
next
  case (Cons seed seeds)
  then show ?case
    by (cases "run seed"; cases acc) (auto split: prod.splits)
qed





subsection \<open>Facts about gradients and the task loop\<close>

lemma length_map_index [simp]: "length (map_index f ps) = length ps"
  by (simp add: map_index_def)

lemma nth_map_index [simp]: "j < length ps \<Longrightarrow> map_index f ps ! j = f j (ps ! j)"
  by (simp add: map_index_def)

lemma values_of_backward [simp]:
  "values_of (features_params (backward L t s)) = values_of (features_params s)"
  "values_of (head_params (backward L t s)) = values_of (head_params s)"
  by (auto simp: backward_def values_of_def accumulate_def map_index_def intro: nth_equalityI)

lemma backward_frame [simp]:
  "opt_state (backward L t s) = opt_state s"
  "training_accuracy (backward L t s) = training_accuracy s"
  "test_accuracy (backward L t s) = test_accuracy s"
  "running_time (backward L t s) = running_time s"
  "printed (backward L t s) = printed s"
  "length (features_params (backward L t s)) = length (features_params s)"
  "length (head_params (backward L t s)) = length (head_params s)"
  by (simp_all add: backward_def)

lemma adapt_task_values:
  "values_of (features_params s') = values_of (features_params s) \<Longrightarrow>
   values_of (head_params s') = values_of (head_params s) \<Longrightarrow>
   adapt_task sc L A s' batch = adapt_task sc L A s batch"
  by (cases sc) (simp_all add: adapt_task_def)

lemma adapt_task_backward [simp]:
  "adapt_task sc L A (backward L t s) batch = adapt_task sc L A s batch"
  by (rule adapt_task_values) simp_all

lemma one_task_Inr:
  assumes "one_task sc L E A i t (s, a) = Inr (s', a')"
  obtains e1 c1 e2 c2 e3 c3 where
    "adapt_task sc L A s (train_tasks E i t) = Inr (e1, c1)"
    "adapt_task sc L A s (valid_tasks E i t) = Inr (e2, c2)"
    "adapt_task sc L A s (test_tasks E i t) = Inr (e3, c3)"
    "s' = backward L e1 s"
    "a' = a\<lparr>meta_train_error := meta_train_error a + item L e1,
            meta_train_accuracy := fadd (meta_train_accuracy a) c1,
            meta_valid_error := meta_valid_error a + item L e2,
            meta_valid_accuracy := fadd (meta_valid_accuracy a) c2,
            meta_test_error := meta_test_error a + item L e3,
            meta_test_accuracy := fadd (meta_test_accuracy a) c3\<rparr>"
  using assms
  by (auto simp: one_task_def Let_def split: sum.splits prod.splits)


lemma task_result_backward [simp]:
  "task_result sc L A (backward L t s) batch = task_result sc L A s batch"
  by (simp add: task_result_def)

lemma task_loop_Inr:
  assumes "task_loop sc L E A i ts (s, a) = Inr (s', a')"
  shows "s' = fold (\<lambda>t. backward L (fst (task_result sc L A s (train_tasks E i t)))) ts s
    \<and> meta_train_accuracy a' =
        foldl fadd (meta_train_accuracy a)
          (map (\<lambda>t. snd (task_result sc L A s (train_tasks E i t))) ts)
    \<and> meta_test_accuracy a' =
        foldl fadd (meta_test_accuracy a)
          (map (\<lambda>t. snd (task_result sc L A s (test_tasks E i t))) ts)
    \<and> meta_train_error a' =
        meta_train_error a
          + (\<Sum>t\<leftarrow>ts. item L (fst (task_result sc L A s (train_tasks E i t))))
    \<and> list_all (\<lambda>t. \<exists>r. adapt_task sc L A s (train_tasks E i t) = Inr r) ts
    \<and> list_all (\<lambda>t. \<exists>r. adapt_task sc L A s (valid_tasks E i t) = Inr r) ts
    \<and> list_all (\<lambda>t. \<exists>r. adapt_task sc L A s (test_tasks E i t) = Inr r) ts"
  using assms
proof (induction ts arbitrary: s a)
  case Nil
  then show ?case by simp
next
  case (Cons t ts)
  from Cons.prems obtain s1 a1 where
    one: "one_task sc L E A i t (s, a) = Inr (s1, a1)"
    and rest: "task_loop sc L E A i ts (s1, a1) = Inr (s', a')"
    by (auto split: sum.splits)
  from one obtain e1 c1 e2 c2 e3 c3 where
    r1: "adapt_task sc L A s (train_tasks E i t) = Inr (e1, c1)"
    and r2: "adapt_task sc L A s (valid_tasks E i t) = Inr (e2, c2)"
    and r3: "adapt_task sc L A s (test_tasks E i t) = Inr (e3, c3)"
    and s1: "s1 = backward L e1 s"
    and a1: "a1 = a\<lparr>meta_train_error := meta_train_error a + item L e1,
            meta_train_accuracy := fadd (meta_train_accuracy a) c1,
            meta_valid_error := meta_valid_error a + item L e2,
            meta_valid_accuracy := fadd (meta_valid_accuracy a) c2,
            meta_test_error := meta_test_error a + item L e3,
            meta_test_accuracy := fadd (meta_test_accuracy a) c3\<rparr>"
    by (rule one_task_Inr)
  have t1: "task_result sc L A s (train_tasks E i t) = (e1, c1)"
    and t3: "task_result sc L A s (test_tasks E i t) = (e3, c3)"
    by (simp_all add: task_result_def r1 r3)
  from Cons.IH [OF rest] show ?case
    by (simp add: s1 a1 t1 t3 r1 r2 r3 add.assoc)
qed

lemma fold_backward_frame [simp]:
  "opt_state (fold (\<lambda>t. backward L (e t)) ts s) = opt_state s"
  "training_accuracy (fold (\<lambda>t. backward L (e t)) ts s) = training_accuracy s"
  "test_accuracy (fold (\<lambda>t. backward L (e t)) ts s) = test_accuracy s"
  "running_time (fold (\<lambda>t. backward L (e t)) ts s) = running_time s"
  "printed (fold (\<lambda>t. backward L (e t)) ts s) = printed s"
  "length (features_params (fold (\<lambda>t. backward L (e t)) ts s)) = length (features_params s)"
  "length (head_params (fold (\<lambda>t. backward L (e t)) ts s)) = length (head_params s)"
  "values_of (features_params (fold (\<lambda>t. backward L (e t)) ts s)) = values_of (features_params s)"
  "values_of (head_params (fold (\<lambda>t. backward L (e t)) ts s)) = values_of (head_params s)"
  by (induction ts arbitrary: s) simp_all

lemma fold_backward_features:
  "j < length (features_params s) \<Longrightarrow>
   features_params (fold (\<lambda>t. backward L (e t)) ts s) ! j =
     (if ts = [] then features_params s ! j
      else (features_params s ! j)
             \<lparr>p_grad := Some (grad_or_zero (p_grad (features_params s ! j))
                              + (\<Sum>t\<leftarrow>ts. d_features L (e t) j))\<rparr>)"
proof (induction ts arbitrary: s)
  case Nil
  then show ?case by simp
next
  case (Cons t ts)
  have j: "j < length (features_params (backward L (e t) s))" using Cons.prems by simp
  have b: "features_params (backward L (e t) s) ! j
           = accumulate (features_params s ! j) (d_features L (e t) j)"
    using Cons.prems by (simp add: backward_def)
  show ?case
    using Cons.IH [OF j]
    by (simp add: b accumulate_def grad_or_zero_def add.assoc split: option.splits)
qed

lemma fold_backward_head:
  "j < length (head_params s) \<Longrightarrow>
   head_params (fold (\<lambda>t. backward L (e t)) ts s) ! j =
     (if ts = [] then head_params s ! j
      else (head_params s ! j)
             \<lparr>p_grad := Some (grad_or_zero (p_grad (head_params s ! j))
                              + (\<Sum>t\<leftarrow>ts. d_head L (e t) j))\<rparr>)"
proof (induction ts arbitrary: s)
  case Nil
  then show ?case by simp
next
  case (Cons t ts)
  have j: "j < length (head_params (backward L (e t) s))" using Cons.prems by simp
  have b: "head_params (backward L (e t) s) ! j
           = accumulate (head_params s ! j) (d_head L (e t) j)"
    using Cons.prems by (simp add: backward_def)
  show ?case
    using Cons.IH [OF j]
    by (simp add: b accumulate_def grad_or_zero_def add.assoc split: option.splits)
qed

lemma set_optimized_frame [simp]:
  "opt_state (set_optimized sc ps s) = opt_state s"
  "training_accuracy (set_optimized sc ps s) = training_accuracy s"
  "test_accuracy (set_optimized sc ps s) = test_accuracy s"
  "running_time (set_optimized sc ps s) = running_time s"
  "printed (set_optimized sc ps s) = printed s"
  by (simp_all add: set_optimized_def split: script.splits)

lemma set_optimized_map_features [simp]:
  "features_params (set_optimized sc (map f (optimized sc s)) s) = map f (features_params s)"
  by (cases sc) (simp_all add: set_optimized_def optimized_def)

lemma set_optimized_map_head:
  "head_params (set_optimized sc (map f (optimized sc s)) s) =
     (case sc of MAML \<Rightarrow> map f (head_params s) | ITD_BiO \<Rightarrow> head_params s)"
  by (cases sc) (simp_all add: set_optimized_def optimized_def)

lemma zero_grad_simps [simp]:
  "features_params (zero_grad sc s) = map (\<lambda>p. p\<lparr>p_grad := None\<rparr>) (features_params s)"
  "head_params (zero_grad sc s) =
     (case sc of MAML \<Rightarrow> map (\<lambda>p. p\<lparr>p_grad := None\<rparr>) (head_params s) | ITD_BiO \<Rightarrow> head_params s)"
  "opt_state (zero_grad sc s) = opt_state s"
  "training_accuracy (zero_grad sc s) = training_accuracy s"
  "test_accuracy (zero_grad sc s) = test_accuracy s"
  "running_time (zero_grad sc s) = running_time s"
  "printed (zero_grad sc s) = printed s"
  by (simp_all add: zero_grad_def set_optimized_map_head)

lemma values_of_zero_grad [simp]:
  "values_of (features_params (zero_grad sc s)) = values_of (features_params s)"
  "values_of (head_params (zero_grad sc s)) = values_of (head_params s)"
  by (simp_all add: values_of_def o_def split: script.splits)

lemma task_result_zero_grad [simp]:
  "task_result sc L A (zero_grad sc s) batch = task_result sc L A s batch"
proof -
  have "adapt_task sc L A (zero_grad sc s) batch = adapt_task sc L A s batch"
    by (rule adapt_task_values) (simp_all only: values_of_zero_grad)
  then show ?thesis by (simp add: task_result_def)
qed

lemma average_gradients_Inr:
  assumes "average_gradients sc B s = Inr s'"
  shows "features_params s' =
           map (\<lambda>p. p\<lparr>p_grad := map_option (\<lambda>g. (1 / real_of_int B) *\<^sub>R g) (p_grad p)\<rparr>)
             (features_params s)
    \<and> head_params s' =
           (case sc of
              MAML \<Rightarrow> map (\<lambda>p. p\<lparr>p_grad := map_option (\<lambda>g. (1 / real_of_int B) *\<^sub>R g) (p_grad p)\<rparr>)
                        (head_params s)
            | ITD_BiO \<Rightarrow> head_params s)
    \<and> opt_state s' = opt_state s
    \<and> training_accuracy s' = training_accuracy s
    \<and> test_accuracy s' = test_accuracy s
    \<and> running_time s' = running_time s
    \<and> printed s' = printed s
    \<and> (optimized sc s \<noteq> [] \<longrightarrow> list_all (\<lambda>p. p_grad p \<noteq> None) (optimized sc s))"
proof (cases "optimized sc s = []")
  case True
  then have "s' = s" using assms by (simp add: average_gradients_def)
  moreover have "features_params s = []" using True by (cases sc) (simp_all add: optimized_def)
  moreover have "sc = MAML \<Longrightarrow> head_params s = []" using True by (simp add: optimized_def)
  ultimately show ?thesis using True by (cases sc) simp_all
next
  case False
  then have ok: "list_all (\<lambda>p. p_grad p \<noteq> None) (optimized sc s)"
    and s': "s' = set_optimized sc
             (map (\<lambda>p. p\<lparr>p_grad := map_option (\<lambda>g. (1 / real_of_int B) *\<^sub>R g) (p_grad p)\<rparr>)
                (optimized sc s)) s"
    using assms by (auto simp: average_gradients_def split: if_splits)
  show ?thesis
    using ok by (simp add: s' set_optimized_map_head)
qed

subsection \<open>Facts about one iteration\<close>

lemma map_index_append:
  "map_index f (xs @ ys) = map_index f xs @ map_index (\<lambda>j. f (length xs + j)) ys"
  by (rule nth_equalityI) (auto simp: map_index_def nth_append)

lemma optimizer_step_features:
  "features_params (optimizer_step sc L s) =
     map_index (\<lambda>j p. case p_grad p of
                        None \<Rightarrow> p
                      | Some g \<Rightarrow> p\<lparr>p_data := adam L (opt_state s) j (p_data p) g\<rparr>)
       (features_params s)"
  by (cases sc) (simp_all add: optimizer_step_def set_optimized_def optimized_def map_index_append)

lemma optimizer_step_head:
  "head_params (optimizer_step sc L s) =
     (case sc of
        MAML \<Rightarrow>
          map_index (\<lambda>j p. case p_grad p of
                        None \<Rightarrow> p
                      | Some g \<Rightarrow> p\<lparr>p_data := adam L (opt_state s)
                                                (length (features_params s) + j) (p_data p) g\<rparr>)
            (head_params s)
      | ITD_BiO \<Rightarrow> head_params s)"
  by (cases sc) (simp_all add: optimizer_step_def set_optimized_def optimized_def map_index_append)

lemma optimizer_step_frame [simp]:
  "training_accuracy (optimizer_step sc L s) = training_accuracy s"
  "test_accuracy (optimizer_step sc L s) = test_accuracy s"
  "running_time (optimizer_step sc L s) = running_time s"
  "printed (optimizer_step sc L s) = printed s"
  "opt_state (optimizer_step sc L s) = adam_next L (opt_state s) (map p_grad (optimized sc s))"
  by (simp_all add: optimizer_step_def)

lemma optimizer_step_grads:
  "map p_grad (features_params (optimizer_step sc L s)) = map p_grad (features_params s)"
  "map p_grad (head_params (optimizer_step sc L s)) = map p_grad (head_params s)"
  by (auto simp: optimizer_step_features optimizer_step_head map_index_def
      intro!: nth_equalityI split: option.splits script.splits)

lemma one_iteration_Inr:
  assumes "one_iteration sc L E A i s = Inr s'"
  obtains s1 a1 s2 where
    "task_loop sc L E A i [0..<nat (arg_meta_batch_size A)] (zero_grad sc s, stats0) = Inr (s1, a1)"
    "arg_meta_batch_size A \<noteq> 0"
    "average_gradients sc (arg_meta_batch_size A)
       (s1\<lparr>training_accuracy :=
              (training_accuracy s1)[i := fdiv (meta_train_accuracy a1) (arg_meta_batch_size A)],
            test_accuracy :=
              (test_accuracy s1)[i := fdiv (meta_test_accuracy a1) (arg_meta_batch_size A)],
            printed := printed s1 @
                   [(''Iteration'', Some (real i)),
                    (''Meta Train Error'', Some (meta_train_error a1 / real_of_int (arg_meta_batch_size A))),
                    (''Meta Train Accuracy'', fdiv (meta_train_accuracy a1) (arg_meta_batch_size A)),
                    (''Meta Valid Error'', Some (meta_valid_error a1 / real_of_int (arg_meta_batch_size A))),
                    (''Meta Valid Accuracy'', fdiv (meta_valid_accuracy a1) (arg_meta_batch_size A)),
                    (''Meta Test Error'', Some (meta_test_error a1 / real_of_int (arg_meta_batch_size A))),
                    (''Meta Test Accuracy'', fdiv (meta_test_accuracy a1) (arg_meta_batch_size A))]\<rparr>)
     = Inr s2"
    "s' = (optimizer_step sc L s2)
            \<lparr>running_time := (running_time s2)[i := end_time E i - start_time E],
             printed := printed s2 @ [(running_time_label sc, Some (end_time E i - start_time E))]\<rparr>"
  using assms
  unfolding one_iteration_def Let_def
  by (auto split: sum.splits prod.splits if_splits)

lemma iteration_cells:
  assumes it: "one_iteration sc L E A i s = Inr s'" and B: "0 < arg_meta_batch_size A"
  shows "j < length (features_params s) \<Longrightarrow>
           features_params s' ! j =
             \<lparr>p_data = adam L (opt_state s) j (p_data (features_params s ! j))
                 ((1 / real_of_int (arg_meta_batch_size A)) *\<^sub>R
                    (\<Sum>t\<leftarrow>[0..<nat (arg_meta_batch_size A)].
                       d_features L (fst (task_result sc L A s (train_tasks E i t))) j)),
              p_grad = Some ((1 / real_of_int (arg_meta_batch_size A)) *\<^sub>R
                    (\<Sum>t\<leftarrow>[0..<nat (arg_meta_batch_size A)].
                       d_features L (fst (task_result sc L A s (train_tasks E i t))) j))\<rparr>"
    and "j < length (head_params s) \<Longrightarrow> sc = MAML \<Longrightarrow>
           head_params s' ! j =
             \<lparr>p_data = adam L (opt_state s) (length (features_params s) + j)
                 (p_data (head_params s ! j))
                 ((1 / real_of_int (arg_meta_batch_size A)) *\<^sub>R
                    (\<Sum>t\<leftarrow>[0..<nat (arg_meta_batch_size A)].
                       d_head L (fst (task_result sc L A s (train_tasks E i t))) j)),
              p_grad = Some ((1 / real_of_int (arg_meta_batch_size A)) *\<^sub>R
                    (\<Sum>t\<leftarrow>[0..<nat (arg_meta_batch_size A)].
                       d_head L (fst (task_result sc L A s (train_tasks E i t))) j))\<rparr>"
    and "length (features_params s') = length (features_params s)"
    and "length (head_params s') = length (head_params s)"
proof -
  let ?B = "arg_meta_batch_size A"
  let ?e = "\<lambda>t. fst (task_result sc L A s (train_tasks E i t))"
  from it obtain s1 a1 s2 where
    loop: "task_loop sc L E A i [0..<nat ?B] (zero_grad sc s, stats0) = Inr (s1, a1)"
    and avg: "average_gradients sc ?B
       (s1\<lparr>training_accuracy :=
              (training_accuracy s1)[i := fdiv (meta_train_accuracy a1) ?B],
            test_accuracy :=
              (test_accuracy s1)[i := fdiv (meta_test_accuracy a1) ?B],
            printed := printed s1 @
                   [(''Iteration'', Some (real i)),
                    (''Meta Train Error'', Some (meta_train_error a1 / real_of_int ?B)),
                    (''Meta Train Accuracy'', fdiv (meta_train_accuracy a1) ?B),
                    (''Meta Valid Error'', Some (meta_valid_error a1 / real_of_int ?B)),
                    (''Meta Valid Accuracy'', fdiv (meta_valid_accuracy a1) ?B),
                    (''Meta Test Error'', Some (meta_test_error a1 / real_of_int ?B)),
                    (''Meta Test Accuracy'', fdiv (meta_test_accuracy a1) ?B)]\<rparr>)
     = Inr s2"
    and s': "s' = (optimizer_step sc L s2)
            \<lparr>running_time := (running_time s2)[i := end_time E i - start_time E],
             printed := printed s2 @ [(running_time_label sc, Some (end_time E i - start_time E))]\<rparr>"
    by (rule one_iteration_Inr)
  have ne: "[0..<nat ?B] \<noteq> []" using B by simp
  have s1: "s1 = fold (\<lambda>t. backward L (?e t)) [0..<nat ?B] (zero_grad sc s)"
    using task_loop_Inr [OF loop] by simp
  note a = average_gradients_Inr [OF avg]
  have f2: "features_params s2 =
      map (\<lambda>p. p\<lparr>p_grad := map_option (\<lambda>g. (1 / real_of_int ?B) *\<^sub>R g) (p_grad p)\<rparr>)
        (features_params s1)"
    using a by simp
  have h2: "sc = MAML \<Longrightarrow> head_params s2 =
      map (\<lambda>p. p\<lparr>p_grad := map_option (\<lambda>g. (1 / real_of_int ?B) *\<^sub>R g) (p_grad p)\<rparr>)
        (head_params s1)"
    using a by simp
  have o2: "opt_state s2 = opt_state s"
    using a by (simp add: s1)
  have lf: "length (features_params s1) = length (features_params s)"
    by (simp add: s1)
  have lh: "length (head_params s1) = length (head_params s)"
    by (cases sc) (simp_all add: s1)
  show "length (features_params s') = length (features_params s)"
    by (simp add: s' optimizer_step_features f2 lf)
  show "length (head_params s') = length (head_params s)"
    using a lh by (cases sc) (simp_all add: s' optimizer_step_head)
  {
    assume j: "j < length (features_params s)"
    then have j0: "j < length (features_params (zero_grad sc s))" by simp
    have c1: "features_params s1 ! j =
        (features_params s ! j)\<lparr>p_grad := Some (\<Sum>t\<leftarrow>[0..<nat ?B]. d_features L (?e t) j)\<rparr>"
      unfolding s1 fold_backward_features [OF j0]
      using ne j by (simp add: grad_or_zero_def)
    show "features_params s' ! j =
             \<lparr>p_data = adam L (opt_state s) j (p_data (features_params s ! j))
                 ((1 / real_of_int ?B) *\<^sub>R (\<Sum>t\<leftarrow>[0..<nat ?B]. d_features L (?e t) j)),
              p_grad = Some ((1 / real_of_int ?B) *\<^sub>R
                    (\<Sum>t\<leftarrow>[0..<nat ?B]. d_features L (?e t) j))\<rparr>"
      using j by (simp add: s' optimizer_step_features f2 lf c1 o2)
  }
  {
    assume j: "j < length (head_params s)" and m: "sc = MAML"
    then have j0: "j < length (head_params (zero_grad sc s))" by simp
    have c1: "head_params s1 ! j =
        (head_params s ! j)\<lparr>p_grad := Some (\<Sum>t\<leftarrow>[0..<nat ?B]. d_head L (?e t) j)\<rparr>"
      unfolding s1 fold_backward_head [OF j0]
      using ne j m by (simp add: grad_or_zero_def)
    have lf2: "length (features_params s2) = length (features_params s)"
      by (simp add: f2 lf)
    show "head_params s' ! j =
             \<lparr>p_data = adam L (opt_state s) (length (features_params s) + j)
                 (p_data (head_params s ! j))
                 ((1 / real_of_int ?B) *\<^sub>R (\<Sum>t\<leftarrow>[0..<nat ?B]. d_head L (?e t) j)),
              p_grad = Some ((1 / real_of_int ?B) *\<^sub>R
                    (\<Sum>t\<leftarrow>[0..<nat ?B]. d_head L (?e t) j))\<rparr>"
      using j m by (simp add: s' optimizer_step_head h2 lh lf2 c1 o2)
  }
qed

subsection \<open>Facts about the outer loop\<close>

lemma iteration_head_itd:
  assumes it: "one_iteration ITD_BiO L E A i s = Inr s'"
  shows "values_of (head_params s') = values_of (head_params s)"
    and "length (head_params s') = length (head_params s)"
proof -
  let ?B = "arg_meta_batch_size A"
  from it obtain s1 a1 s2 where
    loop: "task_loop ITD_BiO L E A i [0..<nat ?B] (zero_grad ITD_BiO s, stats0) = Inr (s1, a1)"
    and avg: "average_gradients ITD_BiO ?B
       (s1\<lparr>training_accuracy :=
              (training_accuracy s1)[i := fdiv (meta_train_accuracy a1) ?B],
            test_accuracy :=
              (test_accuracy s1)[i := fdiv (meta_test_accuracy a1) ?B],
            printed := printed s1 @
                   [(''Iteration'', Some (real i)),
                    (''Meta Train Error'', Some (meta_train_error a1 / real_of_int ?B)),
                    (''Meta Train Accuracy'', fdiv (meta_train_accuracy a1) ?B),
                    (''Meta Valid Error'', Some (meta_valid_error a1 / real_of_int ?B)),
                    (''Meta Valid Accuracy'', fdiv (meta_valid_accuracy a1) ?B),
                    (''Meta Test Error'', Some (meta_test_error a1 / real_of_int ?B)),
                    (''Meta Test Accuracy'', fdiv (meta_test_accuracy a1) ?B)]\<rparr>)
     = Inr s2"
    and s': "s' = (optimizer_step ITD_BiO L s2)
            \<lparr>running_time := (running_time s2)[i := end_time E i - start_time E],
             printed := printed s2 @ [(running_time_label ITD_BiO, Some (end_time E i - start_time E))]\<rparr>"
    by (rule one_iteration_Inr)
  let ?e = "\<lambda>t. fst (task_result ITD_BiO L A s (train_tasks E i t))"
  have s1: "s1 = fold (\<lambda>t. backward L (?e t)) [0..<nat ?B] (zero_grad ITD_BiO s)"
    using task_loop_Inr [OF loop] by simp
  have h2: "head_params s2 = head_params s1"
    using average_gradients_Inr [OF avg] by simp
  have h': "head_params s' = head_params s1"
    by (simp add: s' optimizer_step_head h2)
  have "values_of (head_params s1) = values_of (head_params (zero_grad ITD_BiO s))"
    unfolding s1 by (rule fold_backward_frame)
  then show "values_of (head_params s') = values_of (head_params s)"
    by (simp add: h')
  have "length (head_params s1) = length (head_params (zero_grad ITD_BiO s))"
    unfolding s1 by (rule fold_backward_frame)
  then show "length (head_params s') = length (head_params s)"
    by (simp add: h')
qed

lemma iterations_head_itd:
  "iterations ITD_BiO L E A is s = Inr s' \<Longrightarrow>
   values_of (head_params s') = values_of (head_params s)"
proof (induction "is" arbitrary: s)
  case Nil
  then show ?case by simp
next
  case (Cons i "is")
  from Cons.prems obtain s1 where
    one: "one_iteration ITD_BiO L E A i s = Inr s1"
    and rest: "iterations ITD_BiO L E A is s1 = Inr s'"
    by (auto split: sum.splits)
  from Cons.IH [OF rest] iteration_head_itd(1) [OF one] show ?case by simp
qed

lemma foldl_fadd_Some:
  "list_all (\<lambda>a. a \<noteq> None) accs \<Longrightarrow>
   foldl fadd (Some z) accs = Some (z + (\<Sum>a\<leftarrow>accs. the a))"
  by (induction accs arbitrary: z) (auto simp: fadd_def add.assoc)

lemma foldl_fadd_None: "foldl fadd None accs = None"
  by (induction accs) (simp_all add: fadd_def)

lemma foldl_fadd_nan:
  "\<not> list_all (\<lambda>a. a \<noteq> None) accs \<Longrightarrow> foldl fadd (Some z) accs = None"
proof (induction accs arbitrary: z)
  case Nil
  then show ?case by simp
next
  case (Cons a accs)
  show ?case
  proof (cases a)
    case None
    have "fadd (Some z) None = None" by (simp add: fadd_def)
    then show ?thesis using None by (simp add: foldl_fadd_None)
  next
    case (Some x)
    have "fadd (Some z) (Some x) = Some (z + x)" by (simp add: fadd_def)
    then show ?thesis using Some Cons by simp
  qed
qed

lemma iteration_fields:
  assumes it: "one_iteration sc L E A i s = Inr s'"
  shows "features_params s' =
           map_index (\<lambda>j p. case p_grad p of
                        None \<Rightarrow> p
                      | Some g \<Rightarrow> p\<lparr>p_data := adam L (opt_state s) j (p_data p) g\<rparr>)
             (map (\<lambda>p. p\<lparr>p_grad := map_option (\<lambda>g. (1 / real_of_int (arg_meta_batch_size A)) *\<^sub>R g)
                                      (p_grad p)\<rparr>)
                (features_params (accumulated sc L E A i s)))"
    and "head_params s' =
           (case sc of
              MAML \<Rightarrow>
                map_index (\<lambda>j p. case p_grad p of
                        None \<Rightarrow> p
                      | Some g \<Rightarrow> p\<lparr>p_data := adam L (opt_state s)
                                      (length (features_params s) + j) (p_data p) g\<rparr>)
                  (map (\<lambda>p. p\<lparr>p_grad := map_option (\<lambda>g. (1 / real_of_int (arg_meta_batch_size A)) *\<^sub>R g)
                                      (p_grad p)\<rparr>)
                     (head_params (accumulated sc L E A i s)))
            | ITD_BiO \<Rightarrow> head_params (accumulated sc L E A i s))"
    and "opt_state s' =
           adam_next L (opt_state s)
             (map (\<lambda>p. map_option (\<lambda>g. (1 / real_of_int (arg_meta_batch_size A)) *\<^sub>R g) (p_grad p))
                (optimized sc (accumulated sc L E A i s)))"
    and "training_accuracy s' =
           (training_accuracy s)
             [i := fdiv (foldl fadd (Some 0)
                     (map (\<lambda>t. snd (task_result sc L A s (train_tasks E i t)))
                        [0..<nat (arg_meta_batch_size A)]))
                   (arg_meta_batch_size A)]"
    and "test_accuracy s' =
           (test_accuracy s)
             [i := fdiv (foldl fadd (Some 0)
                     (map (\<lambda>t. snd (task_result sc L A s (test_tasks E i t)))
                        [0..<nat (arg_meta_batch_size A)]))
                   (arg_meta_batch_size A)]"
    and "running_time s' = (running_time s)[i := end_time E i - start_time E]"
proof -
  let ?B = "arg_meta_batch_size A"
  from it obtain s1 a1 s2 where
    loop: "task_loop sc L E A i [0..<nat ?B] (zero_grad sc s, stats0) = Inr (s1, a1)"
    and avg: "average_gradients sc ?B
       (s1\<lparr>training_accuracy :=
              (training_accuracy s1)[i := fdiv (meta_train_accuracy a1) ?B],
            test_accuracy :=
              (test_accuracy s1)[i := fdiv (meta_test_accuracy a1) ?B],
            printed := printed s1 @
                   [(''Iteration'', Some (real i)),
                    (''Meta Train Error'', Some (meta_train_error a1 / real_of_int ?B)),
                    (''Meta Train Accuracy'', fdiv (meta_train_accuracy a1) ?B),
                    (''Meta Valid Error'', Some (meta_valid_error a1 / real_of_int ?B)),
                    (''Meta Valid Accuracy'', fdiv (meta_valid_accuracy a1) ?B),
                    (''Meta Test Error'', Some (meta_test_error a1 / real_of_int ?B)),
                    (''Meta Test Accuracy'', fdiv (meta_test_accuracy a1) ?B)]\<rparr>)
     = Inr s2"
    and s': "s' = (optimizer_step sc L s2)
            \<lparr>running_time := (running_time s2)[i := end_time E i - start_time E],
             printed := printed s2 @ [(running_time_label sc, Some (end_time E i - start_time E))]\<rparr>"
    by (rule one_iteration_Inr)
  note tl = task_loop_Inr [OF loop]
  have s1: "s1 = accumulated sc L E A i s"
    using tl by (simp add: accumulated_def)
  have s1o: "opt_state s1 = opt_state s" "training_accuracy s1 = training_accuracy s"
    "test_accuracy s1 = test_accuracy s" "running_time s1 = running_time s"
    "length (features_params s1) = length (features_params s)"
    by (simp_all add: s1 accumulated_def)
  have tr: "meta_train_accuracy a1 = foldl fadd (Some 0)
              (map (\<lambda>t. snd (task_result sc L A s (train_tasks E i t))) [0..<nat ?B])"
    and te: "meta_test_accuracy a1 = foldl fadd (Some 0)
              (map (\<lambda>t. snd (task_result sc L A s (test_tasks E i t))) [0..<nat ?B])"
    using tl by (simp_all add: stats0_def)
  note a = average_gradients_Inr [OF avg]
  have f2: "features_params s2 =
      map (\<lambda>p. p\<lparr>p_grad := map_option (\<lambda>g. (1 / real_of_int ?B) *\<^sub>R g) (p_grad p)\<rparr>)
        (features_params s1)"
    and h2: "head_params s2 =
           (case sc of
              MAML \<Rightarrow> map (\<lambda>p. p\<lparr>p_grad := map_option (\<lambda>g. (1 / real_of_int ?B) *\<^sub>R g) (p_grad p)\<rparr>)
                        (head_params s1)
            | ITD_BiO \<Rightarrow> head_params s1)"
    and o2: "opt_state s2 = opt_state s"
    and tr2: "training_accuracy s2 = (training_accuracy s)[i := fdiv (meta_train_accuracy a1) ?B]"
    and te2: "test_accuracy s2 = (test_accuracy s)[i := fdiv (meta_test_accuracy a1) ?B]"
    and rt2: "running_time s2 = running_time s"
    using a by (auto simp: s1o split: script.splits)
  show "features_params s' =
           map_index (\<lambda>j p. case p_grad p of
                        None \<Rightarrow> p
                      | Some g \<Rightarrow> p\<lparr>p_data := adam L (opt_state s) j (p_data p) g\<rparr>)
             (map (\<lambda>p. p\<lparr>p_grad := map_option (\<lambda>g. (1 / real_of_int ?B) *\<^sub>R g) (p_grad p)\<rparr>)
                (features_params (accumulated sc L E A i s)))"
    by (simp add: s' optimizer_step_features f2 o2 s1 cong: option.case_cong)
  show "head_params s' =
           (case sc of
              MAML \<Rightarrow>
                map_index (\<lambda>j p. case p_grad p of
                        None \<Rightarrow> p
                      | Some g \<Rightarrow> p\<lparr>p_data := adam L (opt_state s)
                                      (length (features_params s) + j) (p_data p) g\<rparr>)
                  (map (\<lambda>p. p\<lparr>p_grad := map_option (\<lambda>g. (1 / real_of_int ?B) *\<^sub>R g) (p_grad p)\<rparr>)
                     (head_params (accumulated sc L E A i s)))
            | ITD_BiO \<Rightarrow> head_params (accumulated sc L E A i s))"
    using s1o(5)
    by (cases sc) (simp_all add: s' optimizer_step_head f2 h2 o2 s1 cong: option.case_cong)
  show "opt_state s' =
           adam_next L (opt_state s)
             (map (\<lambda>p. map_option (\<lambda>g. (1 / real_of_int ?B) *\<^sub>R g) (p_grad p))
                (optimized sc (accumulated sc L E A i s)))"
    by (cases sc) (simp_all add: s' o2 optimized_def f2 h2 s1 o_def)
  show "training_accuracy s' =
           (training_accuracy s)
             [i := fdiv (foldl fadd (Some 0)
                     (map (\<lambda>t. snd (task_result sc L A s (train_tasks E i t))) [0..<nat ?B])) ?B]"
    by (simp add: s' tr2 tr)
  show "test_accuracy s' =
           (test_accuracy s)
             [i := fdiv (foldl fadd (Some 0)
                     (map (\<lambda>t. snd (task_result sc L A s (test_tasks E i t))) [0..<nat ?B])) ?B]"
    by (simp add: s' te2 te)
  show "running_time s' = (running_time s)[i := end_time E i - start_time E]"
    by (simp add: s' rt2)
qed

lemma accumulated_train_only:
  "train_tasks E' = train_tasks E \<Longrightarrow> accumulated sc L E' A i s = accumulated sc L E A i s"
  by (simp add: accumulated_def)

lemma iterations_append:
  "iterations sc L E A (xs @ ys) s =
     (case iterations sc L E A xs s of
        Inl e \<Rightarrow> Inl e
      | Inr s1 \<Rightarrow> iterations sc L E A ys s1)"
  by (induction xs arbitrary: s) (auto split: sum.splits)

lemma iterations_arrays:
  "iterations sc L E A js s = Inr s' \<Longrightarrow>
     length (training_accuracy s') = length (training_accuracy s)
     \<and> length (test_accuracy s') = length (test_accuracy s)
     \<and> length (running_time s') = length (running_time s)
     \<and> (i \<notin> set js \<longrightarrow>
          training_accuracy s' ! i = training_accuracy s ! i
          \<and> test_accuracy s' ! i = test_accuracy s ! i
          \<and> running_time s' ! i = running_time s ! i)"
proof (induction js arbitrary: s)
  case Nil
  then show ?case by simp
next
  case (Cons j js)
  from Cons.prems obtain s1 where
    one: "one_iteration sc L E A j s = Inr s1"
    and rest: "iterations sc L E A js s1 = Inr s'"
    by (auto split: sum.splits)
  note f = iteration_fields(4-6) [OF one]
  from Cons.IH [OF rest] show ?case
    by (auto simp: f)
qed

lemma main_Inr:
  assumes m: "main sc L E A = Inr (tr, te, rt)" and i: "i < nat (arg_num_iterations A)"
  obtains s_i s_i' s_n where
    "iterations sc L E A [0..<i] (initial_state E A) = Inr s_i"
    "one_iteration sc L E A i s_i = Inr s_i'"
    "tr ! i = training_accuracy s_i' ! i"
    "te ! i = test_accuracy s_i' ! i"
    "rt ! i = running_time s_i' ! i"
    "length (training_accuracy s_i) = nat (arg_num_iterations A)"
    "length (test_accuracy s_i) = nat (arg_num_iterations A)"
    "length (running_time s_i) = nat (arg_num_iterations A)"
proof -
  let ?n = "nat (arg_num_iterations A)"
  from m obtain s_n where
    all: "iterations sc L E A [0..<?n] (initial_state E A) = Inr s_n"
    and res: "tr = training_accuracy s_n" "te = test_accuracy s_n" "rt = running_time s_n"
    by (auto simp: main_def split: sum.splits if_splits)
  have split: "[0..<?n] = [0..<i] @ (i # [Suc i..<?n])"
  proof -
    have "[0..<i + (?n - i)] = [0..<i] @ [i..<i + (?n - i)]"
      by (rule upt_add_eq_append) simp
    moreover have "[i..<?n] = i # [Suc i..<?n]"
      using i by (rule upt_conv_Cons)
    ultimately show ?thesis using i by simp
  qed
  from all obtain s_i where
    pre: "iterations sc L E A [0..<i] (initial_state E A) = Inr s_i"
    and post: "iterations sc L E A (i # [Suc i..<?n]) s_i = Inr s_n"
    unfolding split iterations_append by (auto split: sum.splits)
  from post obtain s_i' where
    one: "one_iteration sc L E A i s_i = Inr s_i'"
    and rest: "iterations sc L E A [Suc i..<?n] s_i' = Inr s_n"
    by (auto split: sum.splits)
  have notin: "i \<notin> set [Suc i..<?n]" by simp
  from iterations_arrays [OF rest, of i] notin
  have keep: "training_accuracy s_n ! i = training_accuracy s_i' ! i"
    "test_accuracy s_n ! i = test_accuracy s_i' ! i"
    "running_time s_n ! i = running_time s_i' ! i"
    by simp_all
  from iterations_arrays [OF pre, of i]
  have len: "length (training_accuracy s_i) = ?n" "length (test_accuracy s_i) = ?n"
    "length (running_time s_i) = ?n"
    by (simp_all add: initial_state_def)
  show ?thesis
    using that [OF pre one] keep len by (simp add: res)
qed

lemma mean_accuracy:
  fixes accs :: "pyfloat list"
  assumes "0 < B" and "length accs = nat B"
  shows "fdiv (foldl fadd (Some 0) accs) B =
           (if list_all (\<lambda>a. a \<noteq> None) accs
            then Some ((\<Sum>a\<leftarrow>accs. the a) / real (length accs)) else None)"
proof (cases "list_all (\<lambda>a. a \<noteq> None) accs")
  case True
  have "real_of_int B = real (length accs)" using assms by simp
  then show ?thesis
    using True by (simp add: foldl_fadd_Some fdiv_def)
next
  case False
  then show ?thesis by (simp add: foldl_fadd_nan fdiv_def)
qed

lemma count_equal_card:
  "length preds = length targets \<Longrightarrow>
   count_equal preds targets = card {k. k < length targets \<and> preds ! k = targets ! k}"
proof -
  assume l: "length preds = length targets"
  have "count_equal preds targets
        = card {k. k < length (zip preds targets) \<and> (\<lambda>(p, t). p = t) (zip preds targets ! k)}"
    unfolding count_equal_def by (rule length_filter_conv_card)
  also have "{k. k < length (zip preds targets) \<and> (\<lambda>(p, t). p = t) (zip preds targets ! k)}
        = {k. k < length targets \<and> preds ! k = targets ! k}"
    using l by auto
  finally show ?thesis .
qed

lemma accuracy_Inr:
  "accuracy amax predictions targets = Inr acc \<Longrightarrow>
   length (amax predictions) = length targets
   \<and> acc = (if targets = [] then None
            else Some (real (card {k. k < length targets \<and> amax predictions ! k = targets ! k})
                       / real (length targets)))"
  by (auto simp: accuracy_def Let_def count_equal_card split: if_splits)

lemma fast_adapt_maml_accuracy:
  assumes "fast_adapt_maml T (data, labels) learner loss steps shots ways = Inr (err, acc)"
    and "separate shots ways data labels = Inr ((ad, al), (ed, el))"
  shows "length (argmax T (forward T (adapt_the_model_maml T loss ad al (nat steps) learner) ed))
           = length el
       \<and> acc = (if el = [] then None
                else Some (real (card {k. k < length el \<and>
                     argmax T (forward T (adapt_the_model_maml T loss ad al (nat steps) learner) ed) ! k
                       = el ! k})
                   / real (length el)))"
proof -
  from assms have
    "accuracy (argmax T)
       (forward T (adapt_the_model_maml T loss ad al (nat steps) learner) ed) el = Inr acc"
    by (auto simp: fast_adapt_maml_def evaluate_the_adapted_model_maml_def Let_def
        split: sum.splits)
  from accuracy_Inr [OF this] show ?thesis .
qed

lemma fast_adapt_itd_accuracy:
  assumes "fast_adapt_itd T (data, labels) learner features loss reg steps shots ways
             = Inr (err, acc)"
    and "separate shots ways (features data) labels = Inr ((ad, al), (ed, el))"
  shows "length (argmax T (forward T (adapt_the_model_itd T loss reg ad al (nat steps) learner) ed))
           = length el
       \<and> acc = (if el = [] then None
                else Some (real (card {k. k < length el \<and>
                     argmax T (forward T (adapt_the_model_itd T loss reg ad al (nat steps) learner) ed) ! k
                       = el ! k})
                   / real (length el)))"
proof -
  from assms have
    "accuracy (argmax T)
       (forward T (adapt_the_model_itd T loss reg ad al (nat steps) learner) ed) el = Inr acc"
    by (auto simp: fast_adapt_itd_def evaluate_the_adapted_model_itd_def Let_def
        split: sum.splits)
  from accuracy_Inr [OF this] show ?thesis .
qed

lemma recorded_accuracy:
  assumes m: "main sc L E A = Inr (tr, te, rt)" and i: "i < nat (arg_num_iterations A)"
    and B: "0 < arg_meta_batch_size A"
  shows "tr ! i =
           (if list_all (\<lambda>a. a \<noteq> None)
                 (map (\<lambda>t. snd (task_result sc L A
                         (projr (iterations sc L E A [0..<i] (initial_state E A)))
                         (train_tasks E i t))) [0..<nat (arg_meta_batch_size A)])
            then Some ((\<Sum>t\<leftarrow>[0..<nat (arg_meta_batch_size A)].
                          the (snd (task_result sc L A
                            (projr (iterations sc L E A [0..<i] (initial_state E A)))
                            (train_tasks E i t))))
                       / real (nat (arg_meta_batch_size A)))
            else None)"
    and "te ! i =
           (if list_all (\<lambda>a. a \<noteq> None)
                 (map (\<lambda>t. snd (task_result sc L A
                         (projr (iterations sc L E A [0..<i] (initial_state E A)))
                         (test_tasks E i t))) [0..<nat (arg_meta_batch_size A)])
            then Some ((\<Sum>t\<leftarrow>[0..<nat (arg_meta_batch_size A)].
                          the (snd (task_result sc L A
                            (projr (iterations sc L E A [0..<i] (initial_state E A)))
                            (test_tasks E i t))))
                       / real (nat (arg_meta_batch_size A)))
            else None)"
proof -
  let ?B = "arg_meta_batch_size A"
  from m i obtain s_i s_i' where
    pre: "iterations sc L E A [0..<i] (initial_state E A) = Inr s_i"
    and one: "one_iteration sc L E A i s_i = Inr s_i'"
    and tr: "tr ! i = training_accuracy s_i' ! i"
    and te: "te ! i = test_accuracy s_i' ! i"
    and len: "length (training_accuracy s_i) = nat (arg_num_iterations A)"
      "length (test_accuracy s_i) = nat (arg_num_iterations A)"
    by (rule main_Inr)
  have p: "projr (iterations sc L E A [0..<i] (initial_state E A)) = s_i"
    by (simp add: pre)
  let ?tr = "map (\<lambda>t. snd (task_result sc L A s_i (train_tasks E i t))) [0..<nat ?B]"
  let ?te = "map (\<lambda>t. snd (task_result sc L A s_i (test_tasks E i t))) [0..<nat ?B]"
  have "tr ! i = fdiv (foldl fadd (Some 0) ?tr) ?B"
    using i len by (simp add: tr iteration_fields(4) [OF one])
  also have "\<dots> = (if list_all (\<lambda>a. a \<noteq> None) ?tr
            then Some ((\<Sum>a\<leftarrow>?tr. the a) / real (length ?tr)) else None)"
    by (rule mean_accuracy [OF B]) simp
  finally show "tr ! i =
           (if list_all (\<lambda>a. a \<noteq> None)
                 (map (\<lambda>t. snd (task_result sc L A
                         (projr (iterations sc L E A [0..<i] (initial_state E A)))
                         (train_tasks E i t))) [0..<nat ?B])
            then Some ((\<Sum>t\<leftarrow>[0..<nat ?B].
                          the (snd (task_result sc L A
                            (projr (iterations sc L E A [0..<i] (initial_state E A)))
                            (train_tasks E i t))))
                       / real (nat ?B))
            else None)"
    by (simp add: p o_def)
  have "te ! i = fdiv (foldl fadd (Some 0) ?te) ?B"
    using i len by (simp add: te iteration_fields(5) [OF one])
  also have "\<dots> = (if list_all (\<lambda>a. a \<noteq> None) ?te
            then Some ((\<Sum>a\<leftarrow>?te. the a) / real (length ?te)) else None)"
    by (rule mean_accuracy [OF B]) simp
  finally show "te ! i =
           (if list_all (\<lambda>a. a \<noteq> None)
                 (map (\<lambda>t. snd (task_result sc L A
                         (projr (iterations sc L E A [0..<i] (initial_state E A)))
                         (test_tasks E i t))) [0..<nat ?B])
            then Some ((\<Sum>t\<leftarrow>[0..<nat ?B].
                          the (snd (task_result sc L A
                            (projr (iterations sc L E A [0..<i] (initial_state E A)))
                            (test_tasks E i t))))
                       / real (nat ?B))
            else None)"
    by (simp add: p o_def)
qed

subsection \<open>When main returns\<close>










subsection \<open>Facts about what the scripts write\<close>








subsection \<open>The adaptation/evaluation split\<close>

text \<open>
  Claim C1. For an episode batch of exactly \<open>2 * shots * ways\<close> examples, the mask built
  by \<open>fast_adapt\<close> (the same lines in both scripts) is True exactly at the even positions:
  the adaptation set is the examples at positions 0, 2, ..., and the evaluation set the
  examples at the odd positions. Each set has \<open>shots * ways\<close> elements, the two sets of
  positions are disjoint, and together they are all positions of the batch.
\<close>

theorem episode_split_even_odd:
  assumes "int (length data) = 2 * shots * ways" and "length labels = length data"
  shows "adaptation_mask shots ways (length data) = Inr (map even [0..<length data])
    \<and> positions (map even [0..<length data]) = map (\<lambda>i. 2 * i) [0..<nat (shots * ways)]
    \<and> positions (invert (map even [0..<length data]))
        = map (\<lambda>i. 2 * i + 1) [0..<nat (shots * ways)]
    \<and> separate shots ways data labels =
        Inr ((map (\<lambda>i. data ! (2 * i)) [0..<nat (shots * ways)],
              map (\<lambda>i. labels ! (2 * i)) [0..<nat (shots * ways)]),
             (map (\<lambda>i. data ! (2 * i + 1)) [0..<nat (shots * ways)],
              map (\<lambda>i. labels ! (2 * i + 1)) [0..<nat (shots * ways)]))
    \<and> set (positions (map even [0..<length data]))
        \<inter> set (positions (invert (map even [0..<length data]))) = {}
    \<and> set (positions (map even [0..<length data]))
        \<union> set (positions (invert (map even [0..<length data]))) = {0..<length data}"
proof -
  let ?k = "nat (shots * ways)"
  have n: "length data = 2 * ?k" using assms(1) by linarith
  have "adaptation_mask shots ways (length data)
        = Inr (map (\<lambda>j. even j \<and> j < 2 * ?k) [0..<length data])"
    using assms(1) by (intro adaptation_mask_ok) linarith
  also have "map (\<lambda>j. even j \<and> j < 2 * ?k) [0..<length data] = map even [0..<length data]"
    using n by simp
  finally have m: "adaptation_mask shots ways (length data) = Inr (map even [0..<length data])" .
  have pa: "positions (map even [0..<length data]) = map (\<lambda>i. 2 * i) [0..<?k]"
    by (simp add: positions_map n evens_below)
  have pe: "positions (invert (map even [0..<length data])) = map (\<lambda>i. 2 * i + 1) [0..<?k]"
    by (simp add: positions_invert_map n odds_below)
  have s: "separate shots ways data labels =
        Inr ((map (\<lambda>i. data ! (2 * i)) [0..<?k], map (\<lambda>i. labels ! (2 * i)) [0..<?k]),
             (map (\<lambda>i. data ! (2 * i + 1)) [0..<?k], map (\<lambda>i. labels ! (2 * i + 1)) [0..<?k]))"
    using separate_ok [OF m _ assms(2)] by (simp add: pa pe o_def)
  have d: "set (positions (map even [0..<length data]))
        \<inter> set (positions (invert (map even [0..<length data]))) = {}"
    by (auto simp: positions_map positions_invert_map)
  have c: "set (positions (map even [0..<length data]))
        \<union> set (positions (invert (map even [0..<length data]))) = {0..<length data}"
    by (auto simp: positions_map positions_invert_map)
  show ?thesis using m pa pe s d c by simp
qed

theorem episode_split_even_odd_witness:
  "int (length [10, 11, 12, 13 :: nat]) = 2 * 1 * 2
   \<and> length [0, 0, 1, 1 :: nat] = length [10, 11, 12, 13 :: nat]
   \<and> separate 1 2 [10, 11, 12, 13 :: nat] [0, 0, 1, 1 :: nat]
       = Inr (([10, 12], [0, 1]), ([11, 13], [0, 1]))"
  using episode_split_even_odd [of "[10, 11, 12, 13 :: nat]" 1 2 "[0, 0, 1, 1 :: nat]"]
  by (simp add: upt_conv_Cons)

text \<open>
  Claim C10. The index assignment of \<open>fast_adapt\<close> raises IndexError exactly when the
  batch has fewer than \<open>2 * shots * ways - 1\<close> examples; the largest index written is
  \<open>2 * (shots * ways - 1)\<close>. With at least that many examples (and one label per
  example) the boolean-mask indexing of data and labels succeeds; with fewer, the
  separation is an error.
\<close>

theorem mask_in_bounds_iff:
  "(adaptation_mask shots ways (length data) = Inl IndexError
      \<longleftrightarrow> int (length data) < 2 * shots * ways - 1)
   \<and> (0 < shots * ways \<longrightarrow>
        last (map (\<lambda>i. i * 2) (arange (shots * ways))) = 2 * (nat (shots * ways) - 1))
   \<and> (2 * shots * ways - 1 \<le> int (length data) \<longrightarrow> length labels = length data \<longrightarrow>
        (\<exists>r. separate shots ways data labels = Inr r))
   \<and> (int (length data) < 2 * shots * ways - 1 \<longrightarrow>
        separate shots ways data labels = Inl IndexError)"
proof (intro conjI impI)
  show "adaptation_mask shots ways (length data) = Inl IndexError
      \<longleftrightarrow> int (length data) < 2 * shots * ways - 1"
  proof (cases "int (length data) < 2 * (shots * ways) - 1")
    case True
    then show ?thesis using adaptation_mask_error [OF True] by simp
  next
    case False
    then have "2 * (shots * ways) - 1 \<le> int (length data)" by simp
    from adaptation_mask_ok [OF this] False show ?thesis by simp
  qed
next
  assume "0 < shots * ways"
  then have "arange (shots * ways) \<noteq> []" by (simp add: arange_def)
  then show "last (map (\<lambda>i. i * 2) (arange (shots * ways))) = 2 * (nat (shots * ways) - 1)"
    by (simp add: last_map arange_def)
next
  assume a: "2 * shots * ways - 1 \<le> int (length data)" and l: "length labels = length data"
  have "2 * (shots * ways) - 1 \<le> int (length data)" using a by simp
  from separate_ok [OF adaptation_mask_ok [OF this] _ l]
  show "\<exists>r. separate shots ways data labels = Inr r" by simp
next
  assume "int (length data) < 2 * shots * ways - 1"
  then have "int (length data) < 2 * (shots * ways) - 1" by simp
  from adaptation_mask_error [OF this]
  show "separate shots ways data labels = Inl IndexError"
    by (simp add: separate_def)
qed

theorem mask_in_bounds_iff_witness:
  "(adaptation_mask 2 1 (length [7, 8, 9 :: nat]) = Inl IndexError
      \<longleftrightarrow> int (length [7, 8, 9 :: nat]) < 2 * 2 * 1 - 1)
   \<and> separate 2 1 [7, 8, 9 :: nat] [0, 0, 0 :: nat] = Inr (([7, 9], [0, 0]), ([8], [0]))
   \<and> separate 2 1 [7, 8 :: nat] [0, 0 :: nat] = Inl IndexError"
proof -
  have "separate 2 1 [7, 8, 9 :: nat] [0, 0, 0 :: nat] = Inr (([7, 9], [0, 0]), ([8], [0]))"
    by (simp add: separate_def adaptation_mask_def assign_true_def arange_def zeros_def
        mask_index_def invert_def upt_conv_Cons)
  then show ?thesis
    using mask_in_bounds_iff [of 2 1 "[7, 8, 9 :: nat]" "[0, 0, 0 :: nat]"]
      mask_in_bounds_iff [of 2 1 "[7, 8 :: nat]" "[0, 0 :: nat]"]
    by simp
qed

subsection \<open>The inner loop\<close>

text \<open>
  Claim C2. In \<^verbatim>\<open>ITD-BiO.py\<close> the training error passed to \<open>learner.adapt\<close> at every
  inner-loop step is the loss of the learner on the adaptation data plus \<open>reg_lambda\<close>
  times the sum, over the learner's parameters, of their L2 norms; in \<^verbatim>\<open>maml.py\<close> it
  is the loss divided by the number of adaptation examples, with no regularization
  term. Stated for the update number \<open>k + 1\<close>, whose learner is the one after \<open>k\<close>
  updates. Tensor arithmetic is exact.
\<close>

theorem inner_loop_train_error:
  "adapt_the_model_itd T loss reg_lambda ad al (Suc k) learner =
     (let l = adapt_the_model_itd T loss reg_lambda ad al k learner in
      adapt T l (loss (forward T l ad) al
                 + reg_lambda *\<^sub>R (\<Sum>p\<leftarrow>parameters T l. norm2 T p)))
   \<and> adapt_the_model_maml T loss ad al (Suc k) learner =
     (let l = adapt_the_model_maml T loss ad al k learner in
      adapt T l (idiv T (loss (forward T l ad) al) (length ad)))"
  unfolding adapt_the_model_maml_funpow adapt_the_model_itd_funpow
  by (simp add: Let_def)

text \<open>
  Claim C8. \<open>fast_adapt\<close> applies \<open>learner.adapt\<close> exactly \<open>adaptation_steps\<close> times
  (\<open>nat adaptation_steps\<close>, which is 0 for a negative argument), each time with the
  training error on the adaptation data. It then computes the predictions of the
  resulting learner on the evaluation data, the evaluation error as the loss of these
  predictions against the evaluation labels (divided by the number of evaluation examples
  in \<^verbatim>\<open>maml.py\<close>), and the evaluation accuracy as the number of predictions equal to their
  label divided by the number of evaluation examples (NaN when there is none); \<open>view\<close>
  raises RuntimeError when \<open>argmax\<close> does not give one prediction per label. With
  \<open>adaptation_steps = 0\<close> the learner evaluated is the one given. The loop is a structural
  recursion, so \<open>fast_adapt\<close> yields a value for every input.
\<close>

theorem fast_adapt_performs_steps:
  assumes "separate shots ways data labels = Inr ((ad, al), (ed, el))"
    and "separate shots ways (features data) labels = Inr ((fad, fal), (fed, fel))"
  shows "fast_adapt_maml T (data, labels) learner loss adaptation_steps shots ways =
           (let adapted = ((\<lambda>l. adapt T l (idiv T (loss (forward T l ad) al) (length ad)))
                             ^^ nat adaptation_steps) learner;
                predictions = forward T adapted ed
            in if length (argmax T predictions) \<noteq> length el then Inl RuntimeError
               else Inr (idiv T (loss predictions el) (length ed),
                         if el = [] then None
                         else Some (real (length (filter (\<lambda>(p, t). p = t)
                                                    (zip (argmax T predictions) el)))
                                    / real (length el))))
       \<and> fast_adapt_itd T (data, labels) learner features loss reg_lambda adaptation_steps
           shots ways =
           (let adapted = ((\<lambda>l. adapt T l (loss (forward T l fad) fal
                                + reg_lambda *\<^sub>R (\<Sum>p\<leftarrow>parameters T l. norm2 T p)))
                             ^^ nat adaptation_steps) learner;
                predictions = forward T adapted fed
            in if length (argmax T predictions) \<noteq> length fel then Inl RuntimeError
               else Inr (loss predictions fel,
                         if fel = [] then None
                         else Some (real (length (filter (\<lambda>(p, t). p = t)
                                                    (zip (argmax T predictions) fel)))
                                    / real (length fel))))
       \<and> fast_adapt_maml T (data, labels) learner loss 0 shots ways =
           (let predictions = forward T learner ed
            in if length (argmax T predictions) \<noteq> length el then Inl RuntimeError
               else Inr (idiv T (loss predictions el) (length ed),
                         if el = [] then None
                         else Some (real (length (filter (\<lambda>(p, t). p = t)
                                                    (zip (argmax T predictions) el)))
                                    / real (length el))))
       \<and> fast_adapt_itd T (data, labels) learner features loss reg_lambda 0 shots ways =
           (let predictions = forward T learner fed
            in if length (argmax T predictions) \<noteq> length fel then Inl RuntimeError
               else Inr (loss predictions fel,
                         if fel = [] then None
                         else Some (real (length (filter (\<lambda>(p, t). p = t)
                                                    (zip (argmax T predictions) fel)))
                                    / real (length fel))))"
  using assms
  by (simp add: fast_adapt_maml_def fast_adapt_itd_def adapt_the_model_maml_funpow
      adapt_the_model_itd_funpow evaluate_the_adapted_model_maml_def
      evaluate_the_adapted_model_itd_def accuracy_def count_equal_def Let_def)


theorem fast_adapt_performs_steps_witness:
  "separate 1 3 [1, 3 / 2, 3, 3 / 2, 1, 3 / 2 :: real] [1, 1, 1, 1, 1, 0 :: nat]
     = Inr (([1, 3, 1], [1, 1, 1]), ([3 / 2, 3 / 2, 3 / 2], [1, 1, 0]))
   \<and> separate 1 3 (map (\<lambda>x. x / 2) [1, 3 / 2, 3, 3 / 2, 1, 3 / 2 :: real])
         [1, 1, 1, 1, 1, 0 :: nat]
     = Inr (([1 / 2, 3 / 2, 1 / 2], [1, 1, 1]), ([3 / 4, 3 / 4, 3 / 4], [1, 1, 0]))
   \<and> fast_adapt_maml toy_lib ([1, 3 / 2, 3, 3 / 2, 1, 3 / 2], [1, 1, 1, 1, 1, 0]) (0, 2)
         (cross_entropy toy_lib) 3 1 3
     = Inr (1 / 3, Some (2 / 3))
   \<and> fast_adapt_itd toy_lib ([1, 3 / 2, 3, 3 / 2, 1, 3 / 2], [1, 1, 1, 1, 1, 0]) (0, 2)
         (\<lambda>xs. map (\<lambda>x. x / 2) xs) (cross_entropy toy_lib) (1 / 2) 3 1 3
     = Inr (1, Some (2 / 3))
   \<and> fast_adapt_maml toy_lib ([1, 3 / 2, 3, 3 / 2, 1, 3 / 2], [1, 1, 1, 1, 1, 0]) (0, 2)
         (cross_entropy toy_lib) 0 1 3
     = Inr (2 / 3, Some (1 / 3))
   \<and> fast_adapt_itd toy_lib ([1, 3 / 2, 3, 3 / 2, 1, 3 / 2], [1, 1, 1, 1, 1, 0]) (0, 2)
         (\<lambda>xs. map (\<lambda>x. x / 2) xs) (cross_entropy toy_lib) (1 / 2) 0 1 3
     = Inr (2, Some (1 / 3))"
proof -
  have s1: "separate 1 3 [1, 3 / 2, 3, 3 / 2, 1, 3 / 2 :: real] [1, 1, 1, 1, 1, 0 :: nat]
     = Inr (([1, 3, 1], [1, 1, 1]), ([3 / 2, 3 / 2, 3 / 2], [1, 1, 0]))"
    by (simp add: separate_def adaptation_mask_def assign_true_def arange_def zeros_def
        mask_index_def invert_def upt_conv_Cons)
  have s2: "separate 1 3 (map (\<lambda>x. x / 2) [1, 3 / 2, 3, 3 / 2, 1, 3 / 2 :: real])
         [1, 1, 1, 1, 1, 0 :: nat]
     = Inr (([1 / 2, 3 / 2, 1 / 2], [1, 1, 1]), ([3 / 4, 3 / 4, 3 / 4], [1, 1, 0]))"
    by (simp add: separate_def adaptation_mask_def assign_true_def arange_def zeros_def
        mask_index_def invert_def upt_conv_Cons)
  show ?thesis
    using s1 s2
      fast_adapt_performs_steps [where features = "\<lambda>xs. map (\<lambda>x. x / 2) xs"
        and data = "[1, 3 / 2, 3, 3 / 2, 1, 3 / 2]" and T = toy_lib and learner = "(0, 2)"
        and loss = "cross_entropy toy_lib" and adaptation_steps = 3
        and reg_lambda = "1 / 2", OF s1 s2]
    by (simp add: toy_lib_def eval_nat_numeral)
qed

subsection \<open>What the scripts write\<close>




subsection \<open>The outer loop\<close>

text \<open>
  Claim C3, as amended. The optimizer step gives every parameter of the backbone that has
  a gradient its Adam update, in both scripts. In \<^verbatim>\<open>maml.py\<close> it does the same for the
  parameters of the head; in \<^verbatim>\<open>ITD-BiO.py\<close> the optimizer holds the parameters of the
  backbone only, the step leaves the head as it is, and over any number of outer
  iterations the values of the head's parameters stay the initial ones. In both scripts
  the step changes no gradient and none of the recorded arrays.
\<close>

theorem optimizer_step_updates:
  "features_params (optimizer_step sc L s) =
     map_index (\<lambda>j p. case p_grad p of
                        None \<Rightarrow> p
                      | Some g \<Rightarrow> p\<lparr>p_data := adam L (opt_state s) j (p_data p) g\<rparr>)
       (features_params s)
   \<and> head_params (optimizer_step MAML L s) =
     map_index (\<lambda>j p. case p_grad p of
                        None \<Rightarrow> p
                      | Some g \<Rightarrow> p\<lparr>p_data := adam L (opt_state s)
                                      (length (features_params s) + j) (p_data p) g\<rparr>)
       (head_params s)
   \<and> head_params (optimizer_step ITD_BiO L s) = head_params s
   \<and> map p_grad (features_params (optimizer_step sc L s)) = map p_grad (features_params s)
   \<and> map p_grad (head_params (optimizer_step sc L s)) = map p_grad (head_params s)
   \<and> training_accuracy (optimizer_step sc L s) = training_accuracy s
   \<and> test_accuracy (optimizer_step sc L s) = test_accuracy s
   \<and> running_time (optimizer_step sc L s) = running_time s
   \<and> printed (optimizer_step sc L s) = printed s
   \<and> (iterations ITD_BiO L E A js s = Inr s' \<longrightarrow>
        values_of (head_params s') = values_of (head_params s))"
  using optimizer_step_features [of sc L s] optimizer_step_head [of MAML L s]
    optimizer_step_head [of ITD_BiO L s] optimizer_step_grads [of sc L s]
    iterations_head_itd [of L E A js s s']
  by simp

text \<open>
  Claim C4. In an outer iteration that completes, with a positive meta batch size, the
  gradient of every optimized parameter, after the backward passes of the meta-training
  tasks and the scaling by \<open>1 / meta_batch_size\<close>, is the arithmetic mean of the per-task
  gradients of the evaluation errors of that iteration's meta-training tasks, and the
  optimizer's update of the parameter is computed from this mean. The optimized
  parameters are those of the backbone, and in \<^verbatim>\<open>maml.py\<close> those of the head as well.
  Tensor arithmetic is exact.
\<close>

theorem gradients_are_averaged:
  assumes "one_iteration sc L E A i s = Inr s'" and "0 < arg_meta_batch_size A"
  shows "(\<forall>j < length (features_params s).
            p_grad (features_params s' ! j) =
              Some ((1 / real_of_int (arg_meta_batch_size A)) *\<^sub>R
                    (\<Sum>t\<leftarrow>[0..<nat (arg_meta_batch_size A)].
                       d_features L (fst (task_result sc L A s (train_tasks E i t))) j))
          \<and> p_data (features_params s' ! j) =
              adam L (opt_state s) j (p_data (features_params s ! j))
                ((1 / real_of_int (arg_meta_batch_size A)) *\<^sub>R
                    (\<Sum>t\<leftarrow>[0..<nat (arg_meta_batch_size A)].
                       d_features L (fst (task_result sc L A s (train_tasks E i t))) j)))
       \<and> (sc = MAML \<longrightarrow>
           (\<forall>j < length (head_params s).
              p_grad (head_params s' ! j) =
                Some ((1 / real_of_int (arg_meta_batch_size A)) *\<^sub>R
                      (\<Sum>t\<leftarrow>[0..<nat (arg_meta_batch_size A)].
                         d_head L (fst (task_result sc L A s (train_tasks E i t))) j))
            \<and> p_data (head_params s' ! j) =
                adam L (opt_state s) (length (features_params s) + j)
                  (p_data (head_params s ! j))
                  ((1 / real_of_int (arg_meta_batch_size A)) *\<^sub>R
                      (\<Sum>t\<leftarrow>[0..<nat (arg_meta_batch_size A)].
                         d_head L (fst (task_result sc L A s (train_tasks E i t))) j))))"
proof (intro conjI allI impI)
  fix j assume j: "j < length (features_params s)"
  from iteration_cells(1) [OF assms j]
  show "p_grad (features_params s' ! j) =
              Some ((1 / real_of_int (arg_meta_batch_size A)) *\<^sub>R
                    (\<Sum>t\<leftarrow>[0..<nat (arg_meta_batch_size A)].
                       d_features L (fst (task_result sc L A s (train_tasks E i t))) j))"
    by simp
  from iteration_cells(1) [OF assms j]
  show "p_data (features_params s' ! j) =
              adam L (opt_state s) j (p_data (features_params s ! j))
                ((1 / real_of_int (arg_meta_batch_size A)) *\<^sub>R
                    (\<Sum>t\<leftarrow>[0..<nat (arg_meta_batch_size A)].
                       d_features L (fst (task_result sc L A s (train_tasks E i t))) j))"
    by simp
next
  fix j assume m: "sc = MAML" and j: "j < length (head_params s)"
  from iteration_cells(2) [OF assms j m]
  show "p_grad (head_params s' ! j) =
                Some ((1 / real_of_int (arg_meta_batch_size A)) *\<^sub>R
                      (\<Sum>t\<leftarrow>[0..<nat (arg_meta_batch_size A)].
                         d_head L (fst (task_result sc L A s (train_tasks E i t))) j))"
    by simp
  from iteration_cells(2) [OF assms j m]
  show "p_data (head_params s' ! j) =
                adam L (opt_state s) (length (features_params s) + j)
                  (p_data (head_params s ! j))
                  ((1 / real_of_int (arg_meta_batch_size A)) *\<^sub>R
                      (\<Sum>t\<leftarrow>[0..<nat (arg_meta_batch_size A)].
                         d_head L (fst (task_result sc L A s (train_tasks E i t))) j))"
    by simp
qed

text \<open>
  Claim C5. When \<open>main\<close> returns, with a positive meta batch size, the recorded training
  accuracy of iteration \<open>i\<close> is the sum of the evaluation accuracies of the meta-training
  tasks of that iteration, computed from the state at the start of the iteration, divided
  by their number, and likewise the test accuracy with the meta-test tasks (NaN when one
  of the accuracies is NaN). The evaluation accuracy that \<open>fast_adapt\<close> returns is the
  number of evaluation examples whose argmax prediction, by the adapted learner, equals
  the label, divided by the number of evaluation examples. Arithmetic is exact.
\<close>

theorem recorded_accuracy_is_mean:
  "(main sc L E A = Inr (tr, te, rt) \<longrightarrow> i < nat (arg_num_iterations A) \<longrightarrow>
    0 < arg_meta_batch_size A \<longrightarrow>
      tr ! i =
           (if list_all (\<lambda>a. a \<noteq> None)
                 (map (\<lambda>t. snd (task_result sc L A
                         (projr (iterations sc L E A [0..<i] (initial_state E A)))
                         (train_tasks E i t))) [0..<nat (arg_meta_batch_size A)])
            then Some ((\<Sum>t\<leftarrow>[0..<nat (arg_meta_batch_size A)].
                          the (snd (task_result sc L A
                            (projr (iterations sc L E A [0..<i] (initial_state E A)))
                            (train_tasks E i t))))
                       / real (nat (arg_meta_batch_size A)))
            else None)
      \<and> te ! i =
           (if list_all (\<lambda>a. a \<noteq> None)
                 (map (\<lambda>t. snd (task_result sc L A
                         (projr (iterations sc L E A [0..<i] (initial_state E A)))
                         (test_tasks E i t))) [0..<nat (arg_meta_batch_size A)])
            then Some ((\<Sum>t\<leftarrow>[0..<nat (arg_meta_batch_size A)].
                          the (snd (task_result sc L A
                            (projr (iterations sc L E A [0..<i] (initial_state E A)))
                            (test_tasks E i t))))
                       / real (nat (arg_meta_batch_size A)))
            else None))
   \<and> (fast_adapt_maml T (data, labels) learner loss steps shots ways = Inr (err, acc) \<longrightarrow>
      separate shots ways data labels = Inr ((ad, al), (ed, el)) \<longrightarrow>
        length (argmax T (forward T (adapt_the_model_maml T loss ad al (nat steps) learner) ed))
           = length el
        \<and> acc = (if el = [] then None
                else Some (real (card {k. k < length el \<and>
                     argmax T (forward T (adapt_the_model_maml T loss ad al (nat steps) learner) ed) ! k
                       = el ! k})
                   / real (length el))))
   \<and> (fast_adapt_itd T (data, labels) learner features loss reg steps shots ways
        = Inr (err', acc') \<longrightarrow>
      separate shots ways (features data) labels = Inr ((fad, fal), (fed, fel)) \<longrightarrow>
        length (argmax T (forward T (adapt_the_model_itd T loss reg fad fal (nat steps) learner) fed))
           = length fel
        \<and> acc' = (if fel = [] then None
                else Some (real (card {k. k < length fel \<and>
                     argmax T (forward T (adapt_the_model_itd T loss reg fad fal (nat steps) learner) fed) ! k
                       = fel ! k})
                   / real (length fel))))"
  using recorded_accuracy [of sc L E A tr te rt i]
    fast_adapt_maml_accuracy [of T data labels learner loss steps shots ways err acc ad al ed el]
    fast_adapt_itd_accuracy [of T data labels learner features loss reg steps shots ways
      err' acc' fad fal fed fel]
  by blast

text \<open>
  Claim C9. After the three evaluations of one task the state of the meta-model is the
  state after the backward pass of the meta-training evaluation error alone: the
  meta-validation and meta-test evaluations change neither parameters nor gradients, and
  no evaluation changes a parameter value. The results of the meta-training task go into
  the training accumulators only. Over a whole iteration, two runs that differ only in
  the meta-validation and meta-test batches end with the same parameters, gradients,
  optimizer state, training accuracies and running times; only what is printed and, when
  the meta-test batches differ, the recorded test accuracy can differ.
\<close>

theorem only_training_error_is_backpropagated:
  "(one_task sc L E A i t (s, a) = Inr (s', a') \<longrightarrow>
      s' = backward L (fst (task_result sc L A s (train_tasks E i t))) s
      \<and> values_of (features_params s') = values_of (features_params s)
      \<and> values_of (head_params s') = values_of (head_params s)
      \<and> meta_train_error a' =
            meta_train_error a + item L (fst (task_result sc L A s (train_tasks E i t)))
      \<and> meta_train_accuracy a' =
            fadd (meta_train_accuracy a) (snd (task_result sc L A s (train_tasks E i t))))
   \<and> (one_iteration sc L E A i s = Inr s1 \<longrightarrow> one_iteration sc L E' A i s = Inr s2 \<longrightarrow>
      train_tasks E' = train_tasks E \<longrightarrow> start_time E' = start_time E \<longrightarrow>
      end_time E' = end_time E \<longrightarrow>
        features_params s2 = features_params s1
        \<and> head_params s2 = head_params s1
        \<and> opt_state s2 = opt_state s1
        \<and> training_accuracy s2 = training_accuracy s1
        \<and> running_time s2 = running_time s1
        \<and> (test_tasks E' = test_tasks E \<longrightarrow> test_accuracy s2 = test_accuracy s1))"
proof (intro conjI impI)
  assume one: "one_task sc L E A i t (s, a) = Inr (s', a')"
  from one obtain e1 c1 e2 c2 e3 c3 where
    r1: "adapt_task sc L A s (train_tasks E i t) = Inr (e1, c1)"
    and s': "s' = backward L e1 s"
    and a': "a' = a\<lparr>meta_train_error := meta_train_error a + item L e1,
            meta_train_accuracy := fadd (meta_train_accuracy a) c1,
            meta_valid_error := meta_valid_error a + item L e2,
            meta_valid_accuracy := fadd (meta_valid_accuracy a) c2,
            meta_test_error := meta_test_error a + item L e3,
            meta_test_accuracy := fadd (meta_test_accuracy a) c3\<rparr>"
    by (rule one_task_Inr)
  have t1: "task_result sc L A s (train_tasks E i t) = (e1, c1)"
    by (simp add: task_result_def r1)
  show "s' = backward L (fst (task_result sc L A s (train_tasks E i t))) s"
    by (simp add: s' t1)
  show "values_of (features_params s') = values_of (features_params s)"
    by (simp add: s')
  show "values_of (head_params s') = values_of (head_params s)"
    by (simp add: s')
  show "meta_train_error a' =
            meta_train_error a + item L (fst (task_result sc L A s (train_tasks E i t)))"
    by (simp add: a' t1)
  show "meta_train_accuracy a' =
            fadd (meta_train_accuracy a) (snd (task_result sc L A s (train_tasks E i t)))"
    by (simp add: a' t1)
next
  assume i1: "one_iteration sc L E A i s = Inr s1"
    and i2: "one_iteration sc L E' A i s = Inr s2"
    and tr: "train_tasks E' = train_tasks E"
    and st: "start_time E' = start_time E"
    and en: "end_time E' = end_time E"
  note acc = accumulated_train_only [OF tr]
  show "features_params s2 = features_params s1"
    by (simp add: iteration_fields(1) [OF i1] iteration_fields(1) [OF i2] acc)
  show "head_params s2 = head_params s1"
    unfolding iteration_fields(2) [OF i1] iteration_fields(2) [OF i2] acc ..
  show "opt_state s2 = opt_state s1"
    by (simp add: iteration_fields(3) [OF i1] iteration_fields(3) [OF i2] acc)
  show "training_accuracy s2 = training_accuracy s1"
    by (simp add: iteration_fields(4) [OF i1] iteration_fields(4) [OF i2] tr)
  show "running_time s2 = running_time s1"
    by (simp add: iteration_fields(6) [OF i1] iteration_fields(6) [OF i2] st en)
  assume te: "test_tasks E' = test_tasks E"
  show "test_accuracy s2 = test_accuracy s1"
    by (simp add: iteration_fields(5) [OF i1] iteration_fields(5) [OF i2] te)
qed

end
